theory Spec2Isabelle
  imports Complex_Main "HOL-Library.Multiset" "HOL-Library.Product_Lexorder"
begin

section \<open>Errors and Python primitives\<close>

text \<open>
  The exceptions preprocessing.py can raise, as values. \<open>InvalidArgument\<close> is the
  \<^verbatim>\<open>Exception("Invalid partition. ...")\<close> of \<^verbatim>\<open>get_batch\<close> and
  \<^verbatim>\<open>shuffle_data_by_partition\<close>; \<open>AttributeError\<close>, \<open>IndexError\<close> and \<open>ValueError\<close> are
  the interpreter's and NumPy's own (a missing attribute, a list index out of range,
  \<^verbatim>\<open>max([])\<close>, shapes that do not broadcast). The last two are what the collaborators of
  utils, scipy and python_speech_features raise; they pass through unchanged.
\<close>

datatype error =
    InvalidArgument
  | AttributeError
  | IndexError
  | ValueError
  | FeatureExtractionError
  | UnknownSymbolError

definition bindE :: "error + 'a \<Rightarrow> ('a \<Rightarrow> error + 'b) \<Rightarrow> error + 'b" where
  "bindE m f = (case m of Inl e \<Rightarrow> Inl e | Inr x \<Rightarrow> f x)"

text \<open>A list comprehension whose element expression can raise: the first error wins.\<close>

fun mapE :: "('a \<Rightarrow> error + 'b) \<Rightarrow> 'a list \<Rightarrow> error + 'b list" where
  "mapE f [] = Inr []"
| "mapE f (x # xs) = bindE (f x) (\<lambda>y. bindE (mapE f xs) (\<lambda>ys. Inr (y # ys)))"

text \<open>\<^verbatim>\<open>xs[i]\<close> for an index that is not negative.\<close>

definition py_index :: "'a list \<Rightarrow> nat \<Rightarrow> error + 'a" where
  "py_index xs i = (if i < length xs then Inr (xs ! i) else Inl IndexError)"

text \<open>\<^verbatim>\<open>xs[a:b]\<close> for bounds that are not negative: the slice is cut at the list's end.\<close>

definition py_slice :: "'a list \<Rightarrow> nat \<Rightarrow> nat \<Rightarrow> 'a list" where
  "py_slice xs a b = take (b - a) (drop a xs)"

text \<open>\<^verbatim>\<open>max(xs)\<close>: ValueError on the empty list.\<close>

fun py_max :: "nat list \<Rightarrow> error + nat" where
  "py_max [] = Inl ValueError"
| "py_max (x # xs) = Inr (fold max xs x)"

section \<open>NumPy arrays\<close>

text \<open>
  A two-dimensional float array of shape \<open>(nrows, ncols)\<close>. The column count is kept
  beside the rows because an array with no row still has its second dimension, and
  broadcasting looks at it. Entries are real numbers: rounding is not modelled, and
  no property below depends on it.
\<close>

datatype array2 = Array2 (ncols: nat) (rows: "real list list")

definition nrows :: "array2 \<Rightarrow> nat" where
  "nrows a = length (rows a)"

text \<open>NumPy's broadcasting rule for one pair of dimensions.\<close>

definition broadcast_dim :: "nat \<Rightarrow> nat \<Rightarrow> error + nat" where
  "broadcast_dim m n =
     (if m = n then Inr m else if m = 1 then Inr n else if n = 1 then Inr m
      else Inl ValueError)"

text \<open>A dimension of size one is repeated to the size asked for.\<close>

definition stretch :: "nat \<Rightarrow> 'a list \<Rightarrow> 'a list" where
  "stretch n xs = (if length xs = n then xs else replicate n (hd xs))"

text \<open>\<^verbatim>\<open>a op v\<close> for a 2-D array and a 1-D array: \<open>v\<close> is applied to every row.\<close>

definition array2_vec_op :: "(real \<Rightarrow> real \<Rightarrow> real) \<Rightarrow> array2 \<Rightarrow> real list \<Rightarrow> error + array2" where
  "array2_vec_op f a v =
     bindE (broadcast_dim (ncols a) (length v)) (\<lambda>n.
       Inr (Array2 n (map (\<lambda>r. map2 f (stretch n r) (stretch n v)) (rows a))))"

text \<open>
  \<^verbatim>\<open>row[:n] = src\<close> on a 1-D row: the target is the first \<open>min n (length row)\<close>
  entries, and \<open>src\<close> must have that length or length one.
\<close>

definition broadcast_to :: "nat \<Rightarrow> 'a list \<Rightarrow> error + 'a list" where
  "broadcast_to k src =
     (if length src = k \<or> length src = 1 then Inr (stretch k src) else Inl ValueError)"

definition assign_prefix :: "'a list \<Rightarrow> nat \<Rightarrow> 'a list \<Rightarrow> error + 'a list" where
  "assign_prefix row n src =
     bindE (broadcast_to (min n (length row)) src) (\<lambda>v. Inr (v @ drop (length v) row))"

text \<open>
  \<^verbatim>\<open>block[:n, :] = a\<close> on a 2-D block whose rows have \<open>d\<close> entries: the target has
  shape \<open>(min n (length block), d)\<close>, and each dimension of \<open>a\<close> must agree or be one.
\<close>

definition broadcast_to2 :: "nat \<Rightarrow> nat \<Rightarrow> array2 \<Rightarrow> error + real list list" where
  "broadcast_to2 k d a =
     (if (ncols a = d \<or> ncols a = 1) \<and> (nrows a = k \<or> nrows a = 1)
      then Inr (stretch k (map (stretch d) (rows a))) else Inl ValueError)"

definition assign_rows :: "real list list \<Rightarrow> nat \<Rightarrow> nat \<Rightarrow> array2 \<Rightarrow> error + real list list" where
  "assign_rows block d n a =
     bindE (broadcast_to2 (min n (length block)) d a) (\<lambda>v. Inr (v @ drop (length v) block))"

text \<open>\<^verbatim>\<open>xs[i] = ...\<close> on the first axis of an array: IndexError out of range.\<close>

definition update_at :: "'a list \<Rightarrow> nat \<Rightarrow> ('a \<Rightarrow> error + 'a) \<Rightarrow> error + 'a list" where
  "update_at xs i f =
     (if i < length xs then bindE (f (xs ! i)) (\<lambda>v. Inr (xs[i := v])) else Inl IndexError)"

section \<open>Collaborators and generator state\<close>

text \<open>
  What preprocessing.py imports and calls: \<^verbatim>\<open>calc_feat_dim\<close>, \<^verbatim>\<open>spectrogram_from_file\<close>
  and \<^verbatim>\<open>text_to_int_sequence\<close> of utils, \<^verbatim>\<open>wav.read\<close>, \<^verbatim>\<open>mfcc\<close>,
  \<^verbatim>\<open>np.random.permutation\<close> and \<^verbatim>\<open>np.argsort\<close>. The first six are parameters of the
  model; each theorem states what it needs of them. \<^verbatim>\<open>np.argsort\<close> is modelled below as the
  sort it is; its one degree of freedom, the order in which the default sort kind leaves
  equal keys, is the parameter \<open>tie_rank\<close>: among the indices of equal keys of the array
  \<open>a\<close>, the one with the smaller \<open>tie_rank a\<close> comes first.
\<close>

record externals =
  calc_feat_dim :: "int \<Rightarrow> int \<Rightarrow> nat"
  spectrogram_from_file :: "string \<Rightarrow> int \<Rightarrow> int \<Rightarrow> int \<Rightarrow> error + array2"
  wav_read :: "string \<Rightarrow> error + (int \<times> int list)"
  mfcc :: "int list \<Rightarrow> int \<Rightarrow> nat \<Rightarrow> error + array2"
  text_to_int_sequence :: "string \<Rightarrow> error + int list"
  random_permutation :: "nat \<Rightarrow> nat list"
  tie_rank :: "real list \<Rightarrow> nat \<Rightarrow> nat"

text \<open>
  The attributes \<^verbatim>\<open>AudioGenerator.__init__\<close> assigns. Sizes and cursors are natural
  numbers. \<open>test_valid_index\<close> is the attribute \<^verbatim>\<open>get_batch\<close> reads for the test
  partition; nothing in the class assigns it, so it is optional here and \<open>None\<close> after
  construction. \<^verbatim>\<open>self.rng\<close> is stored and never read; it is left out.
\<close>

record constructed =
  feat_dim :: nat
  mfcc_dim :: nat
  feats_mean :: "real list"
  feats_std :: "real list"
  step :: int
  window :: int
  max_freq :: int
  cur_train_index :: nat
  cur_valid_index :: nat
  cur_test_index :: nat
  test_valid_index :: "nat option"
  max_duration :: real
  minimum_batch_size :: nat
  spectrogram :: bool
  sort_by_duration :: bool

text \<open>
  The object the methods work on: the constructed attributes and the eight partition
  sequences that \<^verbatim>\<open>get_batch\<close> and \<^verbatim>\<open>shuffle_data_by_partition\<close> read. No line of
  preprocessing.py assigns these sequences; they are attributes set on the object from
  outside the class.
\<close>

record generator = constructed +
  train_audio_paths :: "string list"
  train_durations :: "real list"
  train_texts :: "string list"
  valid_audio_paths :: "string list"
  valid_durations :: "real list"
  valid_texts :: "string list"
  test_audio_paths :: "string list"
  test_texts :: "string list"

text \<open>
  \<^verbatim>\<open>AudioGenerator.__init__\<close> (lines 15-44). Given a description file it calls
  \<^verbatim>\<open>self.load_metadata_from_desc_file\<close> (line 34), a method the class does not have: the
  call raises \<^verbatim>\<open>AttributeError\<close>. Without one it stores the fifteen attributes.
\<close>

definition AudioGenerator_init ::
  "externals \<Rightarrow> int \<Rightarrow> int \<Rightarrow> int \<Rightarrow> nat \<Rightarrow> nat \<Rightarrow> string option \<Rightarrow> bool \<Rightarrow> real \<Rightarrow> bool \<Rightarrow>
     error + constructed" where
  "AudioGenerator_init ext step' window' max_freq' mfcc_dim' minimum_batch_size' desc_file
       spectrogram' max_duration' sort_by_duration' =
     (if desc_file \<noteq> None then Inl AttributeError
      else Inr
        \<lparr> feat_dim = calc_feat_dim ext window' max_freq',
          mfcc_dim = mfcc_dim',
          feats_mean = replicate (calc_feat_dim ext window' max_freq') 0,
          feats_std = replicate (calc_feat_dim ext window' max_freq') 1,
          step = step',
          window = window',
          max_freq = max_freq',
          cur_train_index = 0,
          cur_valid_index = 0,
          cur_test_index = 0,
          test_valid_index = None,
          max_duration = max_duration',
          minimum_batch_size = minimum_batch_size',
          spectrogram = spectrogram',
          sort_by_duration = sort_by_duration' \<rparr>)"

text \<open>The partition sequences a caller assigns to a constructed object.\<close>

record corpus =
  c_train_audio_paths :: "string list"
  c_train_durations :: "real list"
  c_train_texts :: "string list"
  c_valid_audio_paths :: "string list"
  c_valid_durations :: "real list"
  c_valid_texts :: "string list"
  c_test_audio_paths :: "string list"
  c_test_texts :: "string list"

text \<open>
  The assignment of the eight sequences to a constructed object, as in
  \<^verbatim>\<open>obj.train_audio_paths = ...\<close>; it touches no attribute the constructor has set.
\<close>

definition with_sequences :: "corpus \<Rightarrow> constructed \<Rightarrow> generator" where
  "with_sequences desc obj =
     \<lparr> feat_dim = feat_dim obj,
       mfcc_dim = mfcc_dim obj,
       feats_mean = feats_mean obj,
       feats_std = feats_std obj,
       step = step obj,
       window = window obj,
       max_freq = max_freq obj,
       cur_train_index = cur_train_index obj,
       cur_valid_index = cur_valid_index obj,
       cur_test_index = cur_test_index obj,
       test_valid_index = test_valid_index obj,
       max_duration = max_duration obj,
       minimum_batch_size = minimum_batch_size obj,
       spectrogram = spectrogram obj,
       sort_by_duration = sort_by_duration obj,
       train_audio_paths = c_train_audio_paths desc,
       train_durations = c_train_durations desc,
       train_texts = c_train_texts desc,
       valid_audio_paths = c_valid_audio_paths desc,
       valid_durations = c_valid_durations desc,
       valid_texts = c_valid_texts desc,
       test_audio_paths = c_test_audio_paths desc,
       test_texts = c_test_texts desc \<rparr>"

text \<open>
  A method of the class takes the generator and gives back its result, or the exception
  it raised, together with the generator as the call left it.
\<close>

type_synonym 'a meth = "generator \<Rightarrow> (error + 'a) \<times> generator"

definition unitM :: "'a \<Rightarrow> 'a meth" where
  "unitM x = (\<lambda>g. (Inr x, g))"

definition bindM :: "'a meth \<Rightarrow> ('a \<Rightarrow> 'b meth) \<Rightarrow> 'b meth" where
  "bindM m f = (\<lambda>g. case m g of (Inl e, g') \<Rightarrow> (Inl e, g') | (Inr x, g') \<Rightarrow> f x g')"

fun mapM :: "('a \<Rightarrow> 'b meth) \<Rightarrow> 'a list \<Rightarrow> 'b list meth" where
  "mapM f [] = unitM []"
| "mapM f (x # xs) = bindM (f x) (\<lambda>y. bindM (mapM f xs) (\<lambda>ys. unitM (y # ys)))"

section \<open>featurize and normalize\<close>

text \<open>\<^verbatim>\<open>AudioGenerator.featurize\<close> (lines 104-115).\<close>

definition featurize :: "externals \<Rightarrow> string \<Rightarrow> array2 meth" where
  "featurize ext audio_clip = (\<lambda>g.
     ((if spectrogram g
       then spectrogram_from_file ext audio_clip (step g) (window g) (max_freq g)
       else bindE (wav_read ext audio_clip) (\<lambda>(rate, sig). mfcc ext sig rate (mfcc_dim g))),
      g))"

definition eps :: real where
  "eps = 1 / 10 ^ 14"

text \<open>\<^verbatim>\<open>AudioGenerator.normalize\<close> (lines 117-122).\<close>

definition normalize :: "array2 \<Rightarrow> array2 meth" where
  "normalize feature = (\<lambda>g.
     (bindE (array2_vec_op (-) feature (feats_mean g)) (\<lambda>centred.
        array2_vec_op (/) centred (map (\<lambda>s. s + eps) (feats_std g))),
      g))"

section \<open>get_batch\<close>

text \<open>The two dictionaries \<^verbatim>\<open>get_batch\<close> returns.\<close>

record inputs =
  the_input :: "real list list list"
  the_labels :: "real list list"
  input_length :: "real list list"
  label_length :: "real list list"

record outputs =
  ctc :: "real list"

text \<open>
  Lines 52-66: the partition's paths, cursor and texts. The test branch reads
  \<^verbatim>\<open>self.test_valid_index\<close>, not the \<^verbatim>\<open>cur_test_index\<close> the constructor sets.
\<close>

definition select_partition :: "string \<Rightarrow> generator \<Rightarrow> error + (string list \<times> nat \<times> string list)" where
  "select_partition partition' g =
     (if partition' = ''train'' then Inr (train_audio_paths g, cur_train_index g, train_texts g)
      else if partition' = ''valid'' then Inr (valid_audio_paths g, cur_valid_index g, valid_texts g)
      else if partition' = ''test'' then
        (case test_valid_index g of
           None \<Rightarrow> Inl AttributeError
         | Some cur_index \<Rightarrow> Inr (test_audio_paths g, cur_index, test_texts g))
      else Inl InvalidArgument)"

text \<open>Lines 68-69: featurize and normalize every clip of the window, in order.\<close>

definition window_features :: "externals \<Rightarrow> string list \<Rightarrow> nat \<Rightarrow> array2 list meth" where
  "window_features ext audio_paths cur_index = (\<lambda>g.
     mapM (\<lambda>a. bindM (featurize ext a) normalize)
       (py_slice audio_paths cur_index (cur_index + minimum_batch_size g)) g)"

text \<open>The third dimension of the input tensor (line 79): booleans multiply as 0 and 1.\<close>

definition input_width :: "generator \<Rightarrow> nat" where
  "input_width g = feat_dim g * of_bool (spectrogram g) + mfcc_dim g * of_bool (\<not> spectrogram g)"

text \<open>The body of the loop of lines 84-93, for one index \<open>i\<close>.\<close>

definition fill_example ::
  "externals \<Rightarrow> generator \<Rightarrow> array2 list \<Rightarrow> string list \<Rightarrow> nat \<Rightarrow> nat \<Rightarrow> inputs \<Rightarrow> error + inputs" where
  "fill_example ext g features texts cur_index i arrs =
     bindE (py_index features i) (\<lambda>feat.
     bindE (update_at (input_length arrs) i (\<lambda>_. Inr [real (nrows feat)])) (\<lambda>input_length'.
     bindE (update_at (the_input arrs) i (\<lambda>block. assign_rows block (input_width g) (nrows feat) feat))
       (\<lambda>input_data'.
     bindE (py_index texts (cur_index + i)) (\<lambda>text.
     bindE (text_to_int_sequence ext text) (\<lambda>label.
     bindE (update_at (the_labels arrs) i (\<lambda>row. assign_prefix row (length label) (map real_of_int label)))
       (\<lambda>labels'.
     bindE (update_at (label_length arrs) i (\<lambda>_. Inr [real (length label)])) (\<lambda>label_length'.
     Inr \<lparr> the_input = input_data', the_labels = labels',
           input_length = input_length', label_length = label_length' \<rparr>)))))))"

fun fill_batch ::
  "externals \<Rightarrow> generator \<Rightarrow> array2 list \<Rightarrow> string list \<Rightarrow> nat \<Rightarrow> nat list \<Rightarrow> inputs \<Rightarrow> error + inputs" where
  "fill_batch ext g features texts cur_index [] arrs = Inr arrs"
| "fill_batch ext g features texts cur_index (i # is) arrs =
     bindE (fill_example ext g features texts cur_index i arrs)
       (fill_batch ext g features texts cur_index is)"

text \<open>Lines 77-82: the four arrays as allocated, before the loop fills them.\<close>

definition allocate :: "generator \<Rightarrow> nat \<Rightarrow> nat \<Rightarrow> inputs" where
  "allocate g max_length max_string_length =
     \<lparr> the_input = replicate (minimum_batch_size g)
                     (replicate max_length (replicate (input_width g) 0)),
       the_labels = replicate (minimum_batch_size g) (replicate max_string_length (1 * 28)),
       input_length = replicate (minimum_batch_size g) [0],
       label_length = replicate (minimum_batch_size g) [0] \<rparr>"

text \<open>Lines 71-102: the sizes, the arrays, the loop and the two dictionaries.\<close>

definition batch_arrays ::
  "externals \<Rightarrow> generator \<Rightarrow> array2 list \<Rightarrow> string list \<Rightarrow> nat \<Rightarrow> error + (inputs \<times> outputs)" where
  "batch_arrays ext g features texts cur_index =
     bindE (mapE (\<lambda>i. bindE (py_index features i) (\<lambda>f. Inr (nrows f)))
              [0..<minimum_batch_size g]) (\<lambda>lengths.
     bindE (py_max lengths) (\<lambda>max_length.
     bindE (mapE (\<lambda>i. bindE (py_index texts (cur_index + i)) (\<lambda>t. Inr (length t)))
              [0..<minimum_batch_size g]) (\<lambda>string_lengths.
     bindE (py_max string_lengths) (\<lambda>max_string_length.
     bindE (fill_batch ext g features texts cur_index [0..<minimum_batch_size g]
              (allocate g max_length max_string_length)) (\<lambda>arrs.
     Inr (arrs, \<lparr> ctc = replicate (minimum_batch_size g) 0 \<rparr>))))))"

text \<open>\<^verbatim>\<open>AudioGenerator.get_batch\<close> (lines 46-102).\<close>

definition get_batch :: "externals \<Rightarrow> string \<Rightarrow> (inputs \<times> outputs) meth" where
  "get_batch ext partition' = (\<lambda>g.
     case select_partition partition' g of
       Inl e \<Rightarrow> (Inl e, g)
     | Inr (audio_paths, cur_index, texts) \<Rightarrow>
         bindM (window_features ext audio_paths cur_index)
           (\<lambda>features g'. (batch_arrays ext g' features texts cur_index, g')) g)"

section \<open>Shuffling and sorting\<close>

text \<open>\<^verbatim>\<open>shuffle_data\<close> (lines 141-153).\<close>

definition shuffle_data ::
  "externals \<Rightarrow> 'a list \<Rightarrow> 'b list \<Rightarrow> 'c list \<Rightarrow> error + ('a list \<times> 'b list \<times> 'c list)" where
  "shuffle_data ext audio_paths durations texts =
     (let p = random_permutation ext (length audio_paths) in
      bindE (mapE (py_index audio_paths) p) (\<lambda>audio_paths'.
      bindE (mapE (py_index durations) p) (\<lambda>durations'.
      bindE (mapE (py_index texts) p) (\<lambda>texts'.
      Inr (audio_paths', durations', texts')))))"

text \<open>
  \<^verbatim>\<open>np.argsort(a).tolist()\<close> with the default sort kind: the indices of \<open>a\<close> in ascending
  order of their keys, indices of equal keys in the order \<open>tie_rank\<close> gives them.
\<close>

definition np_argsort :: "externals \<Rightarrow> real list \<Rightarrow> nat list" where
  "np_argsort ext a = sort_key (\<lambda>i. (a ! i, tie_rank ext a i)) [0..<length a]"

text \<open>\<^verbatim>\<open>sort_data\<close> (lines 156-167).\<close>

definition sort_data ::
  "externals \<Rightarrow> 'a list \<Rightarrow> real list \<Rightarrow> 'c list \<Rightarrow> error + ('a list \<times> real list \<times> 'c list)" where
  "sort_data ext audio_paths durations texts =
     (let p = np_argsort ext durations in
      bindE (mapE (py_index audio_paths) p) (\<lambda>audio_paths'.
      bindE (mapE (py_index durations) p) (\<lambda>durations'.
      bindE (mapE (py_index texts) p) (\<lambda>texts'.
      Inr (audio_paths', durations', texts')))))"

text \<open>\<^verbatim>\<open>AudioGenerator.shuffle_data_by_partition\<close> (lines 124-138).\<close>

definition shuffle_data_by_partition :: "externals \<Rightarrow> string \<Rightarrow> unit meth" where
  "shuffle_data_by_partition ext partition' = (\<lambda>g.
     if partition' = ''train'' then
       (case shuffle_data ext (train_audio_paths g) (train_durations g) (train_texts g) of
          Inl e \<Rightarrow> (Inl e, g)
        | Inr (a, d, t) \<Rightarrow>
            (Inr (), g\<lparr>train_audio_paths := a, train_durations := d, train_texts := t\<rparr>))
     else if partition' = ''valid'' then
       (case shuffle_data ext (valid_audio_paths g) (valid_durations g) (valid_texts g) of
          Inl e \<Rightarrow> (Inl e, g)
        | Inr (a, d, t) \<Rightarrow>
            (Inr (), g\<lparr>valid_audio_paths := a, valid_durations := d, valid_texts := t\<rparr>))
     else (Inl InvalidArgument, g))"

section \<open>Notions used in the statements\<close>

text \<open>
  Two states of the four arrays have the same shape when every array has as many rows
  and every row as many entries in the one as in the other.
\<close>

definition same_shape :: "inputs \<Rightarrow> inputs \<Rightarrow> bool" where
  "same_shape arrs arrs' \<longleftrightarrow>
     map length (the_input arrs') = map length (the_input arrs) \<and>
     map length (the_labels arrs') = map length (the_labels arrs) \<and>
     length (input_length arrs') = length (input_length arrs) \<and>
     length (label_length arrs') = length (label_length arrs)"

text \<open>
  The conditions under which the loop body runs through for index \<open>i\<close>: the indices are
  in range, the feature matrix broadcasts into its block of the input tensor, and the
  encoded transcript broadcasts into the prefix of its label row.
\<close>

definition example_fits ::
  "externals \<Rightarrow> generator \<Rightarrow> array2 list \<Rightarrow> string list \<Rightarrow> nat \<Rightarrow> inputs \<Rightarrow> nat \<Rightarrow> bool" where
  "example_fits ext g features texts cur_index arrs i \<longleftrightarrow>
     i < length features \<and> i < length (input_length arrs) \<and> i < length (the_input arrs) \<and>
     (ncols (features ! i) = input_width g \<or> ncols (features ! i) = 1) \<and>
     (nrows (features ! i) \<le> length (the_input arrs ! i) \<or> nrows (features ! i) = 1) \<and>
     cur_index + i < length texts \<and>
     (\<exists>label. text_to_int_sequence ext (texts ! (cur_index + i)) = Inr label \<and>
        (length label \<le> length (the_labels arrs ! i) \<or> length label = 1)) \<and>
     i < length (the_labels arrs) \<and> i < length (label_length arrs)"

text \<open>What the four arrays hold for example \<open>i\<close>.\<close>

definition example_of :: "inputs \<Rightarrow> nat \<Rightarrow> real list list \<times> real list \<times> real list \<times> real list" where
  "example_of arrs i =
     (the_input arrs ! i, the_labels arrs ! i, input_length arrs ! i, label_length arrs ! i)"

text \<open>
  A partition is ready for \<^verbatim>\<open>get_batch\<close> when it is one whose cursor can be read, the batch
  size is positive, the window \<open>[cursor, cursor + batch size)\<close> lies within its paths and
  texts, and the collaborators answer the window as their interfaces say: every clip
  featurizes and normalizes to a matrix as wide as the input tensor, and the encoder
  returns one code per character of every transcript.
\<close>

definition window_ready :: "externals \<Rightarrow> generator \<Rightarrow> string \<Rightarrow> bool" where
  "window_ready ext g partition' =
     (case select_partition partition' g of
        Inl e \<Rightarrow> False
      | Inr (audio_paths, cur_index, texts) \<Rightarrow>
          0 < minimum_batch_size g \<and>
          cur_index + minimum_batch_size g \<le> length audio_paths \<and>
          cur_index + minimum_batch_size g \<le> length texts \<and>
          (case fst (window_features ext audio_paths cur_index g) of
             Inl e \<Rightarrow> False
           | Inr features \<Rightarrow>
               list_all (\<lambda>f. ncols f = input_width g) features \<and>
               list_all (\<lambda>t. case text_to_int_sequence ext t of
                                Inl e \<Rightarrow> False
                              | Inr label \<Rightarrow> length label = length t)
                 (py_slice texts cur_index (cur_index + minimum_batch_size g))))"

text \<open>
  The place of an index in an index list: the number of entries before its first
  occurrence.
\<close>

definition position :: "nat list \<Rightarrow> nat \<Rightarrow> nat" where
  "position p i = length (takeWhile (\<lambda>j. j \<noteq> i) p)"

text \<open>
  The character codes of the encoder: the integers that occur in what it returns for
  some transcript. The vocabulary size is their number. The table itself belongs to
  utils and is not part of preprocessing.py; the statements that speak of it say what
  they need of it.
\<close>

definition real_codes :: "externals \<Rightarrow> int set" where
  "real_codes ext = {c. \<exists>text label. text_to_int_sequence ext text = Inr label \<and> c \<in> set label}"

definition vocabulary_size :: "externals \<Rightarrow> nat" where
  "vocabulary_size ext = card (real_codes ext)"

section \<open>Example data\<close>

text \<open>
  Concrete collaborators and a small corpus, on which the theorems below are run. The
  encoder gives one code per character: 0 for the apostrophe, 1 for the space, 2 to 27
  for the letters \<open>a\<close> to \<open>z\<close>, and fails on any other character. \<open>demo_ext\<close> leaves
  equal keys in their original order and "shuffles" by reversing.
\<close>

definition demo_spectrogram :: "string \<Rightarrow> int \<Rightarrow> int \<Rightarrow> int \<Rightarrow> error + array2" where
  "demo_spectrogram audio_clip step' window' max_freq' =
     (if audio_clip = ''a.wav'' then Inr (Array2 2 [[1, 2]])
      else if audio_clip = ''b.wav'' then Inr (Array2 2 [[3, 4], [5, 6], [7, 8]])
      else if audio_clip = ''c.wav'' then Inr (Array2 2 [[9, 10], [11, 12]])
      else Inl FeatureExtractionError)"

definition demo_code :: "char \<Rightarrow> error + int" where
  "demo_code c =
     (if c = CHR 0x27 then Inr 0
      else if c = CHR '' '' then Inr 1
      else if 97 \<le> (of_char c :: nat) \<and> (of_char c :: nat) \<le> 122 then Inr (int (of_char c) - 95)
      else Inl UnknownSymbolError)"

definition demo_encode :: "string \<Rightarrow> error + int list" where
  "demo_encode text = mapE demo_code text"

definition demo_ext :: externals where
  "demo_ext =
     \<lparr> calc_feat_dim = (\<lambda>window' max_freq'. 2),
       spectrogram_from_file = demo_spectrogram,
       wav_read = (\<lambda>audio_clip. Inr (16000, [])),
       mfcc = (\<lambda>sig rate numcep. Inr (Array2 numcep [replicate numcep 1])),
       text_to_int_sequence = demo_encode,
       random_permutation = (\<lambda>n. rev [0..<n]),
       tie_rank = (\<lambda>a i. i) \<rparr>"

text \<open>
  Collaborators under which \<^verbatim>\<open>np.argsort\<close> leaves the indices of an array that is already
  in ascending order as they are, and otherwise puts later indices first among equal
  keys: \<^verbatim>\<open>[2.0, 2.0, 1.0, 1.0]\<close> gives \<^verbatim>\<open>[3, 2, 1, 0]\<close>. NumPy's default sort kind is
  quicksort, which its documentation lists as not stable.
\<close>

definition late_first_ext :: externals where
  "late_first_ext = demo_ext \<lparr> tie_rank := (\<lambda>a i. if sorted a then i else length a - i) \<rparr>"

text \<open>
  The scenario of three clips lasting 1, 3 and 2 seconds, with the transcripts
  \<open>hi\<close>, \<open>hello there\<close> and \<open>ok\<close>, and a batch size of 3.
\<close>

definition demo_corpus :: corpus where
  "demo_corpus =
     \<lparr> c_train_audio_paths = [''a.wav'', ''b.wav'', ''c.wav''],
       c_train_durations = [1, 3, 2],
       c_train_texts = [''hi'', ''hello there'', ''ok''],
       c_valid_audio_paths = [''c.wav'', ''a.wav''],
       c_valid_durations = [2, 1],
       c_valid_texts = [''ok'', ''hi''],
       c_test_audio_paths = [''b.wav''],
       c_test_texts = [''hello there''] \<rparr>"

text \<open>
  What \<^verbatim>\<open>AudioGenerator(minimum_batch_size=3)\<close> constructs with these collaborators, and
  the generator it is once the corpus is assigned.
\<close>

definition demo_constructed :: constructed where
  "demo_constructed =
     \<lparr> feat_dim = 2,
       mfcc_dim = 13,
       feats_mean = [0, 0],
       feats_std = [1, 1],
       step = 10,
       window = 20,
       max_freq = 8000,
       cur_train_index = 0,
       cur_valid_index = 0,
       cur_test_index = 0,
       test_valid_index = None,
       max_duration = 10,
       minimum_batch_size = 3,
       spectrogram = True,
       sort_by_duration = False \<rparr>"

definition demo_generator :: generator where
  "demo_generator = with_sequences demo_corpus demo_constructed"

text \<open>The batch \<^verbatim>\<open>get_batch\<close> returns for the training partition of the example.\<close>

definition demo_inputs :: inputs where
  "demo_inputs =
     \<lparr> the_input =
         [[[1 / (1 + eps), 2 / (1 + eps)], [0, 0], [0, 0]],
          [[3 / (1 + eps), 4 / (1 + eps)], [5 / (1 + eps), 6 / (1 + eps)],
           [7 / (1 + eps), 8 / (1 + eps)]],
          [[9 / (1 + eps), 10 / (1 + eps)], [11 / (1 + eps), 12 / (1 + eps)], [0, 0]]],
       the_labels =
         [[9, 10, 28, 28, 28, 28, 28, 28, 28, 28, 28],
          [9, 6, 13, 13, 16, 1, 21, 9, 6, 19, 6],
          [16, 12, 28, 28, 28, 28, 28, 28, 28, 28, 28]],
       input_length = [[1], [3], [2]],
       label_length = [[2], [11], [2]] \<rparr>"

definition demo_outputs :: outputs where
  "demo_outputs = \<lparr> ctc = [0, 0, 0] \<rparr>"

definition demo_label :: "nat \<Rightarrow> int list" where
  "demo_label i = [[9, 10], [9, 6, 13, 13, 16, 1, 21, 9, 6, 19, 6], [16, 12]] ! i"

text \<open>
  The constructor's defaults in cepstral mode: a spectrogram dimension of 161 (what
  \<^verbatim>\<open>calc_feat_dim\<close> gives for a 20 ms window and 8000 Hz) beside 13 cepstral coefficients.
\<close>

definition cepstral_ext :: externals where
  "cepstral_ext = demo_ext \<lparr> calc_feat_dim := (\<lambda>window' max_freq'. 161) \<rparr>"

text \<open>An encoder that returns two codes for every character.\<close>

definition doubling_ext :: externals where
  "doubling_ext =
     demo_ext \<lparr> text_to_int_sequence := (\<lambda>text. Inr (concat (map (\<lambda>c. [2, 3]) text))) \<rparr>"

section \<open>Basic facts\<close>

lemma bindE_simps [simp]:
  "bindE (Inl e) f = Inl e"
  "bindE (Inr x) f = f x"
  by (simp_all add: bindE_def)

lemma bindE_eq_Inr: "bindE m f = Inr y \<longleftrightarrow> (\<exists>x. m = Inr x \<and> f x = Inr y)"
  by (cases m) simp_all

lemma mapE_length: "mapE f xs = Inr ys \<Longrightarrow> length ys = length xs"
  by (induction xs arbitrary: ys) (auto simp: bindE_eq_Inr)

lemma mapE_nth: "mapE f xs = Inr ys \<Longrightarrow> i < length xs \<Longrightarrow> f (xs ! i) = Inr (ys ! i)"
proof (induction xs arbitrary: ys i)
  case Nil
  then show ?case by simp
next
  case (Cons x xs)
  then show ?case by (cases i) (auto simp: bindE_eq_Inr)
qed

lemma mapE_all_Inr: "(\<And>x. x \<in> set xs \<Longrightarrow> f x = Inr (h x)) \<Longrightarrow> mapE f xs = Inr (map h xs)"
  by (induction xs) simp_all

lemma mapE_py_index: "set p \<subseteq> {..<length xs} \<Longrightarrow> mapE (py_index xs) p = Inr (map ((!) xs) p)"
  by (rule mapE_all_Inr) (auto simp: py_index_def)

lemma mset_map_nth_perm:
  assumes "mset p = mset [0..<length xs]"
  shows "mset (map ((!) xs) p) = mset xs"
proof -
  have "mset (map ((!) xs) p) = image_mset ((!) xs) (mset p)" by simp
  also have "\<dots> = mset (map ((!) xs) [0..<length xs])" using assms by simp
  also have "\<dots> = mset xs" by (simp add: map_nth)
  finally show ?thesis .
qed

lemma perm_indices_in_range: "mset p = mset [0..<n] \<Longrightarrow> set p \<subseteq> {..<n}"
  by (metis atLeast_upt mset_eq_setD set_eq_subset)

lemma zip3_map_nth:
  assumes "set p \<subseteq> {..<n}" "length a = n" "length d = n" "length t = n"
  shows "zip (map ((!) a) p) (zip (map ((!) d) p) (map ((!) t) p)) = map ((!) (zip a (zip d t))) p"
  using assms by (induction p) auto

lemma reorder_three:
  assumes "mset p = mset [0..<length a]" "length d = length a" "length t = length a"
  shows "bindE (mapE (py_index a) p) (\<lambda>a'. bindE (mapE (py_index d) p) (\<lambda>d'.
           bindE (mapE (py_index t) p) (\<lambda>t'. Inr (a', d', t'))))
         = Inr (map ((!) a) p, map ((!) d) p, map ((!) t) p)"
    and "mset (zip (map ((!) a) p) (zip (map ((!) d) p) (map ((!) t) p))) = mset (zip a (zip d t))"
proof -
  have r: "set p \<subseteq> {..<length a}" using assms(1) by (rule perm_indices_in_range)
  show "bindE (mapE (py_index a) p) (\<lambda>a'. bindE (mapE (py_index d) p) (\<lambda>d'.
           bindE (mapE (py_index t) p) (\<lambda>t'. Inr (a', d', t'))))
         = Inr (map ((!) a) p, map ((!) d) p, map ((!) t) p)"
    using r assms(2,3) by (simp add: mapE_py_index)
  have "zip (map ((!) a) p) (zip (map ((!) d) p) (map ((!) t) p)) = map ((!) (zip a (zip d t))) p"
    using r assms(2,3) by (intro zip3_map_nth) auto
  moreover have "mset (map ((!) (zip a (zip d t))) p) = mset (zip a (zip d t))"
    using assms by (intro mset_map_nth_perm) simp
  ultimately show "mset (zip (map ((!) a) p) (zip (map ((!) d) p) (map ((!) t) p))) = mset (zip a (zip d t))"
    by simp
qed

section \<open>Shuffling\<close>

text \<open>
  Claim C7. \<^verbatim>\<open>np.random.permutation(n)\<close> returns a permutation of \<open>0..<n\<close>; that
  is all the theorem asks of it. For parallel lists of equal length, \<^verbatim>\<open>shuffle_data\<close>
  returns the three lists read through one and the same index list \<open>p\<close>, so the
  multiset of (audio path, duration, text) triples is the one it was given; and
  \<^verbatim>\<open>shuffle_data_by_partition\<close> on \<open>train\<close> or \<open>valid\<close> stores exactly these three lists
  in the partition and changes nothing else.
\<close>

theorem shuffle_data_one_permutation:
  assumes "\<forall>n. mset (random_permutation ext n) = mset [0..<n]"
  shows "(length durations = length audio_paths \<and> length texts = length audio_paths \<longrightarrow>
           (\<exists>p. mset p = mset [0..<length audio_paths] \<and>
                shuffle_data ext audio_paths durations texts =
                  Inr (map ((!) audio_paths) p, map ((!) durations) p, map ((!) texts) p) \<and>
                mset (zip (map ((!) audio_paths) p) (zip (map ((!) durations) p) (map ((!) texts) p))) =
                  mset (zip audio_paths (zip durations texts))))
       \<and> (length (train_durations g) = length (train_audio_paths g) \<and>
          length (train_texts g) = length (train_audio_paths g) \<longrightarrow>
           (\<exists>p. mset p = mset [0..<length (train_audio_paths g)] \<and>
                shuffle_data_by_partition ext ''train'' g =
                  (Inr (), g\<lparr>train_audio_paths := map ((!) (train_audio_paths g)) p,
                             train_durations := map ((!) (train_durations g)) p,
                             train_texts := map ((!) (train_texts g)) p\<rparr>) \<and>
                mset (zip (map ((!) (train_audio_paths g)) p)
                       (zip (map ((!) (train_durations g)) p) (map ((!) (train_texts g)) p))) =
                  mset (zip (train_audio_paths g) (zip (train_durations g) (train_texts g)))))
       \<and> (length (valid_durations g) = length (valid_audio_paths g) \<and>
          length (valid_texts g) = length (valid_audio_paths g) \<longrightarrow>
           (\<exists>p. mset p = mset [0..<length (valid_audio_paths g)] \<and>
                shuffle_data_by_partition ext ''valid'' g =
                  (Inr (), g\<lparr>valid_audio_paths := map ((!) (valid_audio_paths g)) p,
                             valid_durations := map ((!) (valid_durations g)) p,
                             valid_texts := map ((!) (valid_texts g)) p\<rparr>) \<and>
                mset (zip (map ((!) (valid_audio_paths g)) p)
                       (zip (map ((!) (valid_durations g)) p) (map ((!) (valid_texts g)) p))) =
                  mset (zip (valid_audio_paths g) (zip (valid_durations g) (valid_texts g)))))"
proof -
  have sh: "shuffle_data ext a d t = Inr (map ((!) a) p, map ((!) d) p, map ((!) t) p)
          \<and> mset p = mset [0..<length a]
          \<and> mset (zip (map ((!) a) p) (zip (map ((!) d) p) (map ((!) t) p))) = mset (zip a (zip d t))"
    if "length d = length a" "length t = length a" "p = random_permutation ext (length a)"
    for a :: "'x list" and d :: "'y list" and t :: "'z list" and p
  proof -
    have p: "mset p = mset [0..<length a]" using assms that(3) by simp
    show ?thesis
      using reorder_three[OF p that(1,2)] p that(3) by (simp add: shuffle_data_def Let_def)
  qed
  show ?thesis
  proof (intro conjI impI)
    assume "length durations = length audio_paths \<and> length texts = length audio_paths"
    then show "\<exists>p. mset p = mset [0..<length audio_paths] \<and>
                shuffle_data ext audio_paths durations texts =
                  Inr (map ((!) audio_paths) p, map ((!) durations) p, map ((!) texts) p) \<and>
                mset (zip (map ((!) audio_paths) p) (zip (map ((!) durations) p) (map ((!) texts) p))) =
                  mset (zip audio_paths (zip durations texts))"
      using sh[of durations audio_paths texts] by blast
  next
    assume "length (train_durations g) = length (train_audio_paths g) \<and>
          length (train_texts g) = length (train_audio_paths g)"
    then show "\<exists>p. mset p = mset [0..<length (train_audio_paths g)] \<and>
                shuffle_data_by_partition ext ''train'' g =
                  (Inr (), g\<lparr>train_audio_paths := map ((!) (train_audio_paths g)) p,
                             train_durations := map ((!) (train_durations g)) p,
                             train_texts := map ((!) (train_texts g)) p\<rparr>) \<and>
                mset (zip (map ((!) (train_audio_paths g)) p)
                       (zip (map ((!) (train_durations g)) p) (map ((!) (train_texts g)) p))) =
                  mset (zip (train_audio_paths g) (zip (train_durations g) (train_texts g)))"
      using sh[of "train_durations g" "train_audio_paths g" "train_texts g"]
      by (intro exI[of _ "random_permutation ext (length (train_audio_paths g))"])
         (simp add: shuffle_data_by_partition_def)
  next
    assume "length (valid_durations g) = length (valid_audio_paths g) \<and>
          length (valid_texts g) = length (valid_audio_paths g)"
    then show "\<exists>p. mset p = mset [0..<length (valid_audio_paths g)] \<and>
                shuffle_data_by_partition ext ''valid'' g =
                  (Inr (), g\<lparr>valid_audio_paths := map ((!) (valid_audio_paths g)) p,
                             valid_durations := map ((!) (valid_durations g)) p,
                             valid_texts := map ((!) (valid_texts g)) p\<rparr>) \<and>
                mset (zip (map ((!) (valid_audio_paths g)) p)
                       (zip (map ((!) (valid_durations g)) p) (map ((!) (valid_texts g)) p))) =
                  mset (zip (valid_audio_paths g) (zip (valid_durations g) (valid_texts g)))"
      using sh[of "valid_durations g" "valid_audio_paths g" "valid_texts g"]
      by (intro exI[of _ "random_permutation ext (length (valid_audio_paths g))"])
         (simp add: shuffle_data_by_partition_def)
  qed
qed

text \<open>The theorem at the example corpus, shuffled by reversal.\<close>

theorem shuffle_data_one_permutation_witness:
  "shuffle_data demo_ext [''a.wav'', ''b.wav'', ''c.wav''] [1, 3, 2 :: real] [''hi'', ''hello'', ''ok''] =
     Inr ([''c.wav'', ''b.wav'', ''a.wav''], [2, 3, 1], [''ok'', ''hello'', ''hi''])
   \<and> mset (zip [''c.wav'', ''b.wav'', ''a.wav''] (zip [2, 3, 1 :: real] [''ok'', ''hello'', ''hi''])) =
     mset (zip [''a.wav'', ''b.wav'', ''c.wav''] (zip [1, 3, 2] [''hi'', ''hello'', ''ok'']))"
proof -
  have c: "\<forall>n. mset (random_permutation demo_ext n) = mset [0..<n]"
    by (simp add: demo_ext_def)
  obtain p where p: "shuffle_data demo_ext [''a.wav'', ''b.wav'', ''c.wav''] [1, 3, 2 :: real] [''hi'', ''hello'', ''ok''] =
        Inr (map ((!) [''a.wav'', ''b.wav'', ''c.wav'']) p, map ((!) [1, 3, 2]) p, map ((!) [''hi'', ''hello'', ''ok'']) p)"
     and m: "mset (zip (map ((!) [''a.wav'', ''b.wav'', ''c.wav'']) p) (zip (map ((!) [1, 3, 2 :: real]) p) (map ((!) [''hi'', ''hello'', ''ok'']) p))) =
               mset (zip [''a.wav'', ''b.wav'', ''c.wav''] (zip [1, 3, 2] [''hi'', ''hello'', ''ok'']))"
    using shuffle_data_one_permutation[OF c, of "[1, 3, 2 :: real]" "[''a.wav'', ''b.wav'', ''c.wav'']" "[''hi'', ''hello'', ''ok'']"]
    by auto
  have v: "shuffle_data demo_ext [''a.wav'', ''b.wav'', ''c.wav''] [1, 3, 2 :: real] [''hi'', ''hello'', ''ok''] =
     Inr ([''c.wav'', ''b.wav'', ''a.wav''], [2, 3, 1], [''ok'', ''hello'', ''hi''])"
    by (simp add: shuffle_data_def demo_ext_def py_index_def upt_rec)
  from p v have "map ((!) [''a.wav'', ''b.wav'', ''c.wav'']) p = [''c.wav'', ''b.wav'', ''a.wav'']"
    "map ((!) [1, 3, 2 :: real]) p = [2, 3, 1]" "map ((!) [''hi'', ''hello'', ''ok'']) p = [''ok'', ''hello'', ''hi'']"
    by simp_all
  with m v show ?thesis by simp
qed

section \<open>Sorting\<close>

text \<open>
  Whatever the order among equal keys, \<^verbatim>\<open>np.argsort\<close> returns a permutation of the indices
  through which the keys read in ascending order.
\<close>

lemma np_argsort_mset: "mset (np_argsort ext a) = mset [0..<length a]"
  by (simp add: np_argsort_def)

lemma np_argsort_sorted: "sorted (map ((!) a) (np_argsort ext a))"
proof -
  have "sorted (map (\<lambda>i. (a ! i, tie_rank ext a i)) (np_argsort ext a))"
    unfolding np_argsort_def by (rule sorted_sort_key)
  then have "sorted_wrt (\<lambda>i j. (a ! i, tie_rank ext a i) \<le> (a ! j, tie_rank ext a j))
               (np_argsort ext a)"
    by (simp add: sorted_map)
  then have "sorted_wrt (\<lambda>i j. a ! i \<le> a ! j) (np_argsort ext a)"
    by (rule sorted_wrt_mono_rel[rotated]) (auto simp: less_eq_prod_def)
  then show ?thesis by (simp add: sorted_map)
qed

text \<open>
  Conversely, every permutation of the indices through which the keys read in ascending
  order is what \<^verbatim>\<open>np.argsort\<close> returns under some order among equal keys: the parameter
  \<open>tie_rank\<close> leaves out no answer a sort of the indices can give.
\<close>

lemma position_nth:
  assumes "distinct p" "k < length p"
  shows "position p (p ! k) = k"
proof -
  have "takeWhile (\<lambda>j. j \<noteq> p ! k) p = take k p"
    using assms by (intro takeWhile_eq_take_P_nth) (auto simp: nth_eq_iff_index_eq)
  then show ?thesis using assms by (simp add: position_def)
qed

lemma np_argsort_any_order:
  assumes "mset p = mset [0..<length a]" "sorted (map ((!) a) p)"
  shows "np_argsort (ext\<lparr>tie_rank := \<lambda>a. position p\<rparr>) a = p"
proof -
  let ?f = "\<lambda>i. (a ! i, position p i)"
  have d: "distinct p"
    using assms(1) by (metis distinct_upt mset_eq_imp_distinct_iff)
  have s: "set [0..<length a] = set p"
    using assms(1) by (metis mset_eq_setD)
  have "inj_on (position p) (set p)"
  proof (rule inj_onI)
    fix x y assume "x \<in> set p" "y \<in> set p" "position p x = position p y"
    then obtain i j where "i < length p" "x = p ! i" "j < length p" "y = p ! j"
      by (auto simp: in_set_conv_nth)
    with \<open>position p x = position p y\<close> d show "x = y" by (simp add: position_nth)
  qed
  then have inj: "inj_on ?f (set [0..<length a])"
    unfolding s by (auto simp: inj_on_def)
  have "sorted_wrt (\<lambda>i j. ?f i \<le> ?f j) p"
    unfolding sorted_wrt_iff_nth_less
  proof (intro allI impI)
    fix i j assume ij: "i < j" "j < length p"
    then have "a ! (p ! i) \<le> a ! (p ! j)"
      using assms(2) by (simp add: sorted_iff_nth_mono)
    with ij d show "?f (p ! i) \<le> ?f (p ! j)"
      by (simp add: position_nth less_eq_prod_def)
  qed
  then have "sorted (map ?f p)" by (simp add: sorted_map)
  from sort_key_inj_key_eq[OF assms(1)[symmetric] inj this]
  show ?thesis by (simp add: np_argsort_def)
qed

text \<open>
  Claim C6, as amended. For parallel lists of equal length, \<^verbatim>\<open>sort_data\<close> returns the three
  lists read through one index list, a permutation of the indices: the durations come out
  non-decreasing and the multiset of triples is preserved. The call to \<^verbatim>\<open>np.argsort\<close> names
  no sort kind, so the order among equal durations is not fixed.
\<close>

theorem sort_data_sorted_permutation:
  assumes "length audio_paths = length durations"
      and "length texts = length durations"
  shows "\<exists>p. mset p = mset [0..<length durations] \<and>
             sort_data ext audio_paths durations texts =
               Inr (map ((!) audio_paths) p, map ((!) durations) p, map ((!) texts) p) \<and>
             sorted (map ((!) durations) p) \<and>
             mset (zip (map ((!) audio_paths) p) (zip (map ((!) durations) p) (map ((!) texts) p))) =
               mset (zip audio_paths (zip durations texts))"
proof -
  let ?p = "np_argsort ext durations"
  have q: "mset ?p = mset [0..<length durations]" by (rule np_argsort_mset)
  have p: "mset ?p = mset [0..<length audio_paths]" using q assms(1) by simp
  have "sort_data ext audio_paths durations texts =
          Inr (map ((!) audio_paths) ?p, map ((!) durations) ?p, map ((!) texts) ?p)"
    using reorder_three(1)[OF p, of durations texts] assms by (simp add: sort_data_def Let_def)
  moreover have "mset (zip (map ((!) audio_paths) ?p) (zip (map ((!) durations) ?p) (map ((!) texts) ?p))) =
               mset (zip audio_paths (zip durations texts))"
    using reorder_three(2)[OF p, of durations texts] assms by simp
  moreover have "sorted (map ((!) durations) ?p)" by (rule np_argsort_sorted)
  ultimately show ?thesis using q by blast
qed

lemma demo_np_argsort: "np_argsort demo_ext [1, 3, 2] = [0, 2, 1]"
  by (simp add: np_argsort_def demo_ext_def upt_rec less_eq_prod_def)

text \<open>The theorem at the example corpus.\<close>

theorem sort_data_sorted_permutation_witness:
  "sort_data demo_ext [''a.wav'', ''b.wav'', ''c.wav''] [1, 3, 2] [''hi'', ''hello'', ''ok''] =
     Inr ([''a.wav'', ''c.wav'', ''b.wav''], [1, 2, 3], [''hi'', ''ok'', ''hello''])
   \<and> sorted [1, 2, 3 :: real]
   \<and> mset (zip [''a.wav'', ''c.wav'', ''b.wav''] (zip [1, 2, 3 :: real] [''hi'', ''ok'', ''hello''])) =
     mset (zip [''a.wav'', ''b.wav'', ''c.wav''] (zip [1, 3, 2] [''hi'', ''hello'', ''ok'']))"
proof -
  have 1: "length [''a.wav'', ''b.wav'', ''c.wav''] = length [1, 3, 2 :: real]"
    and 2: "length [''hi'', ''hello'', ''ok''] = length [1, 3, 2 :: real]"
    by simp_all
  obtain p where p: "sort_data demo_ext [''a.wav'', ''b.wav'', ''c.wav''] [1, 3, 2] [''hi'', ''hello'', ''ok''] =
        Inr (map ((!) [''a.wav'', ''b.wav'', ''c.wav'']) p, map ((!) [1, 3, 2]) p, map ((!) [''hi'', ''hello'', ''ok'']) p)"
     and s: "sorted (map ((!) [1, 3, 2 :: real]) p)"
     and m: "mset (zip (map ((!) [''a.wav'', ''b.wav'', ''c.wav'']) p) (zip (map ((!) [1, 3, 2 :: real]) p) (map ((!) [''hi'', ''hello'', ''ok'']) p))) =
               mset (zip [''a.wav'', ''b.wav'', ''c.wav''] (zip [1, 3, 2] [''hi'', ''hello'', ''ok'']))"
    using sort_data_sorted_permutation[OF 1 2, of demo_ext] by auto
  have v: "sort_data demo_ext [''a.wav'', ''b.wav'', ''c.wav''] [1, 3, 2] [''hi'', ''hello'', ''ok''] =
     Inr ([''a.wav'', ''c.wav'', ''b.wav''], [1, 2, 3], [''hi'', ''ok'', ''hello''])"
    by (simp add: sort_data_def demo_np_argsort py_index_def)
  from p v have e: "map ((!) [''a.wav'', ''b.wav'', ''c.wav'']) p = [''a.wav'', ''c.wav'', ''b.wav'']"
    "map ((!) [1, 3, 2 :: real]) p = [1, 2, 3]" "map ((!) [''hi'', ''hello'', ''ok'']) p = [''hi'', ''ok'', ''hello'']"
    by simp_all
  from s e(2) have "sorted [1, 2, 3 :: real]" by simp
  with m v e show ?thesis by simp
qed

text \<open>
  Claim C6 as stated fails on ties. Four clips lasting 2, 2, 1 and 1 seconds:
  \<^verbatim>\<open>np.argsort([2.0, 2.0, 1.0, 1.0])\<close> gives \<^verbatim>\<open>[3, 2, 1, 0]\<close>, so \<^verbatim>\<open>sort_data\<close> returns the
  clips in the order d, c, b, a. The durations are ascending, and both pairs of equal
  durations have changed places: a stable sort gives c, d, a, b.
\<close>

theorem sort_data_ties_reversed:
  "np_argsort late_first_ext [2, 2, 1, 1] = [3, 2, 1, 0]
   \<and> sort_data late_first_ext [''a'', ''b'', ''c'', ''d''] [2, 2, 1, 1] [''w'', ''x'', ''y'', ''z''] =
       Inr ([''d'', ''c'', ''b'', ''a''], [1, 1, 2, 2], [''z'', ''y'', ''x'', ''w''])
   \<and> sort_key (\<lambda>(a, d, t). d) (zip [''a'', ''b'', ''c'', ''d''] (zip [2, 2, 1, 1 :: real] [''w'', ''x'', ''y'', ''z''])) =
       [(''c'', 1, ''y''), (''d'', 1, ''z''), (''a'', 2, ''w''), (''b'', 2, ''x'')]
   \<and> zip [''d'', ''c'', ''b'', ''a''] (zip [1, 1, 2, 2 :: real] [''z'', ''y'', ''x'', ''w'']) \<noteq>
       sort_key (\<lambda>(a, d, t). d) (zip [''a'', ''b'', ''c'', ''d''] (zip [2, 2, 1, 1 :: real] [''w'', ''x'', ''y'', ''z'']))"
proof -
  have a: "np_argsort late_first_ext [2, 2, 1, 1] = [3, 2, 1, 0]"
    by (simp add: np_argsort_def late_first_ext_def upt_rec less_eq_prod_def)
  have "sort_data late_first_ext [''a'', ''b'', ''c'', ''d''] [2, 2, 1, 1] [''w'', ''x'', ''y'', ''z''] =
       Inr ([''d'', ''c'', ''b'', ''a''], [1, 1, 2, 2], [''z'', ''y'', ''x'', ''w''])"
    by (simp add: sort_data_def a py_index_def)
  moreover have "sort_key (\<lambda>(a, d, t). d) (zip [''a'', ''b'', ''c'', ''d''] (zip [2, 2, 1, 1 :: real] [''w'', ''x'', ''y'', ''z''])) =
       [(''c'', 1, ''y''), (''d'', 1, ''z''), (''a'', 2, ''w''), (''b'', 2, ''x'')]"
    by simp
  ultimately show ?thesis using a by simp
qed

section \<open>Batch assembly\<close>

lemma featurize_frame: "snd (featurize ext a g) = g"
  by (simp add: featurize_def)

lemma normalize_frame: "snd (normalize f g) = g"
  by (simp add: normalize_def)

lemma bindM_frame:
  assumes "\<And>g. snd (m g) = g" "\<And>x g. snd (f x g) = g"
  shows "bindM m f g = (bindE (fst (m g)) (\<lambda>x. fst (f x g)), g)"
proof -
  obtain r g' where mg: "m g = (r, g')" by (cases "m g")
  with assms(1)[of g] have g': "g' = g" by simp
  show ?thesis
  proof (cases r)
    case (Inl e)
    show ?thesis by (simp add: bindM_def mg g' Inl)
  next
    case (Inr x)
    show ?thesis using assms(2)[of x g] by (simp add: bindM_def mg g' Inr prod_eq_iff)
  qed
qed

lemma mapM_frame:
  assumes "\<And>x g. snd (f x g) = g"
  shows "mapM f xs g = (mapE (\<lambda>x. fst (f x g)) xs, g)"
proof (induction xs arbitrary: g)
  case Nil
  show ?case by (simp add: unitM_def)
next
  case (Cons x xs)
  have inner: "bindM (mapM f xs) (\<lambda>ys. unitM (y # ys)) g' =
      (bindE (mapE (\<lambda>x. fst (f x g')) xs) (\<lambda>ys. Inr (y # ys)), g')" for y g'
    by (cases "mapE (\<lambda>x. fst (f x g')) xs") (simp_all add: bindM_def Cons.IH unitM_def)
  obtain r g1 where fx: "f x g = (r, g1)" by (cases "f x g")
  with assms[of x g] have g1: "g1 = g" by simp
  show ?case
    using fx g1 inner by (cases r) (simp_all add: bindM_def)
qed

lemma window_features_eq:
  "window_features ext audio_paths cur_index g =
     (mapE (\<lambda>a. bindE (fst (featurize ext a g)) (\<lambda>f. fst (normalize f g)))
        (py_slice audio_paths cur_index (cur_index + minimum_batch_size g)), g)"
proof -
  have fr: "snd (bindM (featurize ext a) normalize g') = g'" for a g'
    by (simp add: bindM_frame[OF featurize_frame normalize_frame])
  have "fst (bindM (featurize ext a) normalize g) =
      bindE (fst (featurize ext a g)) (\<lambda>f. fst (normalize f g))" for a
    by (simp add: bindM_frame[OF featurize_frame normalize_frame])
  then show ?thesis
    unfolding window_features_def by (simp add: mapM_frame[OF fr])
qed

lemma get_batch_eq:
  "get_batch ext partition' g =
     (bindE (select_partition partition' g) (\<lambda>(audio_paths, cur_index, texts).
        bindE (fst (window_features ext audio_paths cur_index g)) (\<lambda>features.
          batch_arrays ext g features texts cur_index)), g)"
proof (cases "select_partition partition' g")
  case (Inl e)
  then show ?thesis by (simp add: get_batch_def)
next
  case (Inr sel)
  obtain audio_paths cur_index texts where sel: "sel = (audio_paths, cur_index, texts)"
    by (cases sel)
  show ?thesis
    using Inr sel
    by (cases "mapE (\<lambda>a. bindE (fst (featurize ext a g)) (\<lambda>f. fst (normalize f g)))
        (py_slice audio_paths cur_index (cur_index + minimum_batch_size g))")
       (simp_all add: get_batch_def bindM_def window_features_eq)
qed

lemma py_index_Inr: "py_index xs i = Inr x \<longleftrightarrow> i < length xs \<and> x = xs ! i"
  by (auto simp: py_index_def)

lemma mapE_index_Inr:
  "mapE (\<lambda>i. bindE (py_index xs (c + i)) (\<lambda>x. Inr (h x))) is = Inr ys \<longleftrightarrow>
     (\<forall>i\<in>set is. c + i < length xs) \<and> ys = map (\<lambda>i. h (xs ! (c + i))) is"
proof (induction "is" arbitrary: ys)
  case Nil
  show ?case by auto
next
  case (Cons i "is")
  show ?case
    by (auto simp: py_index_Inr bindE_eq_Inr Cons.IH)
qed

lemma mapE_index0_Inr:
  "mapE (\<lambda>i. bindE (py_index xs i) (\<lambda>x. Inr (h x))) is = Inr ys \<longleftrightarrow>
     (\<forall>i\<in>set is. i < length xs) \<and> ys = map (\<lambda>i. h (xs ! i)) is"
  using mapE_index_Inr[of xs 0 h "is" ys] by simp

lemma py_max_Inr: "py_max xs = Inr m \<longleftrightarrow> xs \<noteq> [] \<and> m = Max (set xs)"
  by (cases xs) (auto simp: Max.set_eq_fold[symmetric])

lemma stretch_length [simp]: "length (stretch n xs) = n"
  by (simp add: stretch_def)

lemma broadcast_to_Inr:
  "broadcast_to k src = Inr v \<longleftrightarrow> (length src = k \<or> length src = 1) \<and> v = stretch k src"
  by (auto simp: broadcast_to_def)

lemma broadcast_to2_Inr:
  "broadcast_to2 k d a = Inr v \<longleftrightarrow>
     (ncols a = d \<or> ncols a = 1) \<and> (nrows a = k \<or> nrows a = 1) \<and>
     v = stretch k (map (stretch d) (rows a))"
  by (auto simp: broadcast_to2_def)

lemma assign_prefix_Inr:
  "assign_prefix row n src = Inr row' \<longleftrightarrow>
     (min n (length row) = length src \<or> length src = 1) \<and>
     row' = stretch (min n (length row)) src @ drop (min n (length row)) row"
  by (auto simp: assign_prefix_def bindE_eq_Inr broadcast_to_Inr)

lemma assign_rows_Inr:
  "assign_rows block d n a = Inr block' \<longleftrightarrow>
     (ncols a = d \<or> ncols a = 1) \<and> (min n (length block) = nrows a \<or> nrows a = 1) \<and>
     block' = stretch (min n (length block)) (map (stretch d) (rows a))
                @ drop (min n (length block)) block"
  by (auto simp: assign_rows_def bindE_eq_Inr broadcast_to2_Inr)

lemma fill_example_Inr:
  "fill_example ext g features texts c i arrs = Inr arrs' \<longleftrightarrow>
     (\<exists>block' label row'.
        i < length features \<and> i < length (input_length arrs) \<and> i < length (the_input arrs) \<and>
        assign_rows (the_input arrs ! i) (input_width g) (nrows (features ! i)) (features ! i)
          = Inr block' \<and>
        c + i < length texts \<and>
        text_to_int_sequence ext (texts ! (c + i)) = Inr label \<and>
        i < length (the_labels arrs) \<and>
        assign_prefix (the_labels arrs ! i) (length label) (map real_of_int label) = Inr row' \<and>
        i < length (label_length arrs) \<and>
        arrs' = \<lparr> the_input = (the_input arrs)[i := block'],
                  the_labels = (the_labels arrs)[i := row'],
                  input_length = (input_length arrs)[i := [real (nrows (features ! i))]],
                  label_length = (label_length arrs)[i := [real (length label)]] \<rparr>)"
  unfolding fill_example_def update_at_def
  by (auto simp: bindE_eq_Inr py_index_Inr split: if_splits)

lemma same_shape_refl [simp]: "same_shape arrs arrs"
  by (simp add: same_shape_def)

lemma same_shape_trans: "same_shape a b \<Longrightarrow> same_shape b c \<Longrightarrow> same_shape a c"
  by (simp add: same_shape_def)

lemma same_shape_lengths:
  assumes "same_shape arrs arrs'"
  shows "length (the_input arrs') = length (the_input arrs)"
    and "length (the_labels arrs') = length (the_labels arrs)"
    and "length (input_length arrs') = length (input_length arrs)"
    and "length (label_length arrs') = length (label_length arrs)"
    and "i < length (the_input arrs) \<Longrightarrow> length (the_input arrs' ! i) = length (the_input arrs ! i)"
    and "i < length (the_labels arrs) \<Longrightarrow> length (the_labels arrs' ! i) = length (the_labels arrs ! i)"
proof -
  from assms have m: "map length (the_input arrs') = map length (the_input arrs)"
    and l: "map length (the_labels arrs') = map length (the_labels arrs)"
    and "length (input_length arrs') = length (input_length arrs)"
    and "length (label_length arrs') = length (label_length arrs)"
    by (simp_all add: same_shape_def)
  then show "length (input_length arrs') = length (input_length arrs)"
    and "length (label_length arrs') = length (label_length arrs)" by simp_all
  show li: "length (the_input arrs') = length (the_input arrs)"
    using m by (rule map_eq_imp_length_eq)
  show ll: "length (the_labels arrs') = length (the_labels arrs)"
    using l by (rule map_eq_imp_length_eq)
  show "length (the_input arrs' ! i) = length (the_input arrs ! i)" if "i < length (the_input arrs)"
    using that li m by (metis nth_map)
  show "length (the_labels arrs' ! i) = length (the_labels arrs ! i)" if "i < length (the_labels arrs)"
    using that ll l by (metis nth_map)
qed

lemma map_length_update:
  "length y = length (xs ! i) \<Longrightarrow> map length (xs[i := y]) = map length xs"
  by (cases "i < length xs") (simp_all add: map_update list_update_same_conv list_update_beyond)

lemma assign_rows_length: "assign_rows block d n a = Inr block' \<Longrightarrow> length block' = length block"
  by (auto simp: assign_rows_Inr)

lemma assign_prefix_length: "assign_prefix row n src = Inr row' \<Longrightarrow> length row' = length row"
  by (auto simp: assign_prefix_Inr)

lemma fill_example_shape:
  assumes "fill_example ext g features texts c i arrs = Inr arrs'"
  shows "same_shape arrs arrs'"
proof -
  from assms obtain block' label row' where
    b: "assign_rows (the_input arrs ! i) (input_width g) (nrows (features ! i)) (features ! i) = Inr block'"
    and r: "assign_prefix (the_labels arrs ! i) (length label) (map real_of_int label) = Inr row'"
    and a: "arrs' = \<lparr> the_input = (the_input arrs)[i := block'],
                  the_labels = (the_labels arrs)[i := row'],
                  input_length = (input_length arrs)[i := [real (nrows (features ! i))]],
                  label_length = (label_length arrs)[i := [real (length label)]] \<rparr>"
    unfolding fill_example_Inr by blast
  show ?thesis
    unfolding same_shape_def a
    using assign_rows_length[OF b] assign_prefix_length[OF r]
    by (simp add: map_length_update)
qed

lemma fill_example_other:
  assumes "fill_example ext g features texts c i arrs = Inr arrs'" "j \<noteq> i"
  shows "example_of arrs' j = example_of arrs j"
  using assms unfolding fill_example_Inr example_of_def by auto

lemma fill_example_succeeds_iff:
  "(\<exists>arrs'. fill_example ext g features texts c i arrs = Inr arrs') \<longleftrightarrow>
     example_fits ext g features texts c arrs i"
  unfolding fill_example_Inr example_fits_def assign_rows_Inr assign_prefix_Inr
  by (auto simp: min_def)

lemma example_fits_shape:
  assumes "same_shape arrs arrs'"
  shows "example_fits ext g features texts c arrs' i = example_fits ext g features texts c arrs i"
  unfolding example_fits_def
  using same_shape_lengths[OF assms] by (auto simp: )

lemma fill_example_local:
  assumes "fill_example ext g features texts c j arrs = Inr arrs2"
      and "example_of arrs j = example_of arrs0 j"
      and "same_shape arrs0 arrs"
  shows "\<exists>arrs3. fill_example ext g features texts c j arrs0 = Inr arrs3 \<and>
                 example_of arrs3 j = example_of arrs2 j"
proof -
  from assms(1) obtain block' label row' where
    i: "j < length features" "j < length (input_length arrs)" "j < length (the_input arrs)"
       "c + j < length texts" "j < length (the_labels arrs)" "j < length (label_length arrs)"
    and b: "assign_rows (the_input arrs ! j) (input_width g) (nrows (features ! j)) (features ! j) = Inr block'"
    and t: "text_to_int_sequence ext (texts ! (c + j)) = Inr label"
    and r: "assign_prefix (the_labels arrs ! j) (length label) (map real_of_int label) = Inr row'"
    and a: "arrs2 = \<lparr> the_input = (the_input arrs)[j := block'],
                  the_labels = (the_labels arrs)[j := row'],
                  input_length = (input_length arrs)[j := [real (nrows (features ! j))]],
                  label_length = (label_length arrs)[j := [real (length label)]] \<rparr>"
    unfolding fill_example_Inr by blast
  from assms(2) have e: "the_input arrs ! j = the_input arrs0 ! j" "the_labels arrs ! j = the_labels arrs0 ! j"
    by (simp_all add: example_of_def)
  note l = same_shape_lengths(1-4)[OF assms(3)]
  let ?arrs3 = "\<lparr> the_input = (the_input arrs0)[j := block'],
                  the_labels = (the_labels arrs0)[j := row'],
                  input_length = (input_length arrs0)[j := [real (nrows (features ! j))]],
                  label_length = (label_length arrs0)[j := [real (length label)]] \<rparr>"
  have "fill_example ext g features texts c j arrs0 = Inr ?arrs3"
    unfolding fill_example_Inr using i b t r e l by auto
  moreover have "example_of ?arrs3 j = example_of arrs2 j"
    using i l by (simp add: example_of_def a)
  ultimately show ?thesis by blast
qed

lemma fill_batch_shape:
  "fill_batch ext g features texts c is arrs = Inr arrs' \<Longrightarrow> same_shape arrs arrs'"
proof (induction "is" arbitrary: arrs)
  case Nil
  then show ?case by simp
next
  case (Cons i "is")
  then obtain arrs1 where 1: "fill_example ext g features texts c i arrs = Inr arrs1"
    and 2: "fill_batch ext g features texts c is arrs1 = Inr arrs'"
    by (auto simp: bindE_eq_Inr)
  from fill_example_shape[OF 1] Cons.IH[OF 2] show ?case by (rule same_shape_trans)
qed

lemma fill_batch_succeeds_iff:
  "(\<exists>arrs'. fill_batch ext g features texts c is arrs = Inr arrs') \<longleftrightarrow>
     (\<forall>i\<in>set is. example_fits ext g features texts c arrs i)"
proof (induction "is" arbitrary: arrs)
  case Nil
  show ?case by simp
next
  case (Cons i "is")
  show ?case
  proof (cases "fill_example ext g features texts c i arrs")
    case (Inl e)
    then have "\<not> example_fits ext g features texts c arrs i"
      using fill_example_succeeds_iff[of ext g features texts c i arrs] by simp
    with Inl show ?thesis by simp
  next
    case (Inr arrs1)
    then have f: "example_fits ext g features texts c arrs i"
      using fill_example_succeeds_iff[of ext g features texts c i arrs] by simp
    have s: "same_shape arrs arrs1" using Inr by (rule fill_example_shape)
    show ?thesis
      using Inr f Cons.IH[of arrs1] by (simp add: example_fits_shape[OF s])
  qed
qed

lemma fill_batch_other:
  "fill_batch ext g features texts c is arrs = Inr arrs' \<Longrightarrow> j \<notin> set is \<Longrightarrow>
     example_of arrs' j = example_of arrs j"
proof (induction "is" arbitrary: arrs)
  case Nil
  then show ?case by simp
next
  case (Cons i "is")
  then obtain arrs1 where 1: "fill_example ext g features texts c i arrs = Inr arrs1"
    and 2: "fill_batch ext g features texts c is arrs1 = Inr arrs'"
    by (auto simp: bindE_eq_Inr)
  from Cons.prems(2) have "j \<noteq> i" "j \<notin> set is" by auto
  with fill_example_other[OF 1] Cons.IH[OF 2] show ?case by simp
qed

lemma fill_batch_at:
  "fill_batch ext g features texts c is arrs = Inr arrs' \<Longrightarrow> distinct is \<Longrightarrow> j \<in> set is \<Longrightarrow>
     \<exists>arrs1. fill_example ext g features texts c j arrs = Inr arrs1 \<and>
             example_of arrs' j = example_of arrs1 j"
proof (induction "is" arbitrary: arrs)
  case Nil
  then show ?case by simp
next
  case (Cons i "is")
  then obtain arrs1 where 1: "fill_example ext g features texts c i arrs = Inr arrs1"
    and 2: "fill_batch ext g features texts c is arrs1 = Inr arrs'"
    by (auto simp: bindE_eq_Inr)
  from Cons.prems(2) have d: "i \<notin> set is" "distinct is" by auto
  show ?case
  proof (cases "j = i")
    case True
    with fill_batch_other[OF 2 d(1)] 1 show ?thesis by blast
  next
    case False
    with Cons.prems(3) have "j \<in> set is" by simp
    from Cons.IH[OF 2 d(2) this] obtain arrs2 where
      3: "fill_example ext g features texts c j arrs1 = Inr arrs2"
      and 4: "example_of arrs' j = example_of arrs2 j" by blast
    from fill_example_local[OF 3 fill_example_other[OF 1 False] fill_example_shape[OF 1]] 4
    show ?thesis by auto
  qed
qed

lemma window_in_range:
  assumes "0 < n" "\<forall>i\<in>{0..<n}. c + i < m"
  shows "c + n \<le> (m::nat)"
proof -
  from assms(1) have "n - 1 \<in> {0..<n}" by simp
  with assms(2) have "c + (n - 1) < m" by blast
  with assms(1) show ?thesis by simp
qed

lemma batch_arrays_Inr:
  "batch_arrays ext g features texts c = Inr (arrs, out) \<longleftrightarrow>
     0 < minimum_batch_size g \<and> minimum_batch_size g \<le> length features \<and>
     c + minimum_batch_size g \<le> length texts \<and>
     fill_batch ext g features texts c [0..<minimum_batch_size g]
       (allocate g (Max (set (map (\<lambda>i. nrows (features ! i)) [0..<minimum_batch_size g])))
                   (Max (set (map (\<lambda>i. length (texts ! (c + i))) [0..<minimum_batch_size g]))))
       = Inr arrs \<and>
     out = \<lparr> ctc = replicate (minimum_batch_size g) 0 \<rparr>"
proof -
  have 1: "(\<forall>i\<in>{0..<n}. i < length features) \<longleftrightarrow> n \<le> length features" for n
    by (auto simp: not_le[symmetric])
  show ?thesis
    unfolding batch_arrays_def
    by (auto simp: bindE_eq_Inr mapE_index0_Inr mapE_index_Inr py_max_Inr 1 dest: window_in_range)
qed

lemma get_batch_Inr:
  "fst (get_batch ext partition' g) = Inr (inp, out) \<longleftrightarrow>
     (\<exists>audio_paths c texts features.
        select_partition partition' g = Inr (audio_paths, c, texts) \<and>
        fst (window_features ext audio_paths c g) = Inr features \<and>
        batch_arrays ext g features texts c = Inr (inp, out))"
  by (auto simp: get_batch_eq bindE_eq_Inr)

lemma window_features_length:
  assumes "fst (window_features ext audio_paths c g) = Inr features"
  shows "length features = min (minimum_batch_size g) (length audio_paths - c)"
  using mapE_length[of _ "py_slice audio_paths c (c + minimum_batch_size g)" features] assms
  by (simp add: window_features_eq py_slice_def)

lemma allocate_simps [simp]:
  "length (the_input (allocate g m s)) = minimum_batch_size g"
  "length (the_labels (allocate g m s)) = minimum_batch_size g"
  "length (input_length (allocate g m s)) = minimum_batch_size g"
  "length (label_length (allocate g m s)) = minimum_batch_size g"
  "i < minimum_batch_size g \<Longrightarrow> the_input (allocate g m s) ! i = replicate m (replicate (input_width g) 0)"
  "i < minimum_batch_size g \<Longrightarrow> the_labels (allocate g m s) ! i = replicate s 28"
  by (simp_all add: allocate_def)

lemma stretch_same: "length xs = n \<Longrightarrow> stretch n xs = xs"
  by (simp add: stretch_def)

lemma batch_arrays_example:
  assumes ba: "batch_arrays ext g features texts c = Inr (inp, out)"
      and i: "i < minimum_batch_size g"
  shows "\<exists>label.
           text_to_int_sequence ext (texts ! (c + i)) = Inr label \<and>
           (ncols (features ! i) = input_width g \<or> ncols (features ! i) = 1) \<and>
           (length label \<le> Max (set (map (\<lambda>i. length (texts ! (c + i))) [0..<minimum_batch_size g]))
              \<or> length label = 1) \<and>
           input_length inp ! i = [real (nrows (features ! i))] \<and>
           label_length inp ! i = [real (length label)] \<and>
           the_input inp ! i =
             map (stretch (input_width g)) (rows (features ! i))
               @ replicate (Max (set (map (\<lambda>i. nrows (features ! i)) [0..<minimum_batch_size g]))
                             - nrows (features ! i)) (replicate (input_width g) 0) \<and>
           the_labels inp ! i =
             take (Max (set (map (\<lambda>i. length (texts ! (c + i))) [0..<minimum_batch_size g])))
                  (map real_of_int label)
               @ replicate (Max (set (map (\<lambda>i. length (texts ! (c + i))) [0..<minimum_batch_size g]))
                             - length label) 28"
proof -
  let ?bs = "minimum_batch_size g"
  let ?MT = "Max (set (map (\<lambda>i. nrows (features ! i)) [0..<?bs]))"
  let ?MS = "Max (set (map (\<lambda>i. length (texts ! (c + i))) [0..<?bs]))"
  let ?a0 = "allocate g ?MT ?MS"
  from ba have fb: "fill_batch ext g features texts c [0..<?bs] ?a0 = Inr inp"
    by (simp add: batch_arrays_Inr)
  from i have mem: "i \<in> set [0..<?bs]" by simp
  from fill_batch_at[OF fb _ mem] obtain arrs1 where
    fe: "fill_example ext g features texts c i ?a0 = Inr arrs1"
    and eq: "example_of inp i = example_of arrs1 i" by auto
  have T: "nrows (features ! i) \<le> ?MT"
    using i by (intro Max_ge) auto
  from fe obtain block' label row' where
    b: "assign_rows (the_input ?a0 ! i) (input_width g) (nrows (features ! i)) (features ! i) = Inr block'"
    and t: "text_to_int_sequence ext (texts ! (c + i)) = Inr label"
    and r: "assign_prefix (the_labels ?a0 ! i) (length label) (map real_of_int label) = Inr row'"
    and a: "arrs1 = \<lparr> the_input = (the_input ?a0)[i := block'],
                  the_labels = (the_labels ?a0)[i := row'],
                  input_length = (input_length ?a0)[i := [real (nrows (features ! i))]],
                  label_length = (label_length ?a0)[i := [real (length label)]] \<rparr>"
    unfolding fill_example_Inr by blast
  from eq a i have rows:
    "the_input inp ! i = block'" "the_labels inp ! i = row'"
    "input_length inp ! i = [real (nrows (features ! i))]"
    "label_length inp ! i = [real (length label)]"
    by (simp_all add: example_of_def)
  from b i T have w: "ncols (features ! i) = input_width g \<or> ncols (features ! i) = 1"
    and block': "block' = map (stretch (input_width g)) (rows (features ! i))
               @ replicate (?MT - nrows (features ! i)) (replicate (input_width g) 0)"
    by (simp_all add: assign_rows_Inr min_absorb1 stretch_same nrows_def)
  from r i have n: "length label \<le> ?MS \<or> length label = 1"
    by (auto simp: assign_prefix_Inr min_def split: if_splits)
  from r i have row0: "row' = stretch (min (length label) ?MS) (map real_of_int label)
      @ replicate (?MS - min (length label) ?MS) 28"
    by (simp add: assign_prefix_Inr)
  have row': "row' = take ?MS (map real_of_int label) @ replicate (?MS - length label) 28"
  proof (cases "length label \<le> ?MS")
    case True
    then show ?thesis by (simp add: row0 min_absorb1 stretch_same)
  next
    case False
    with n have "length label = 1" "?MS = 0" by auto
    then show ?thesis by (simp add: row0 stretch_def)
  qed
  from t w n rows block' row' show ?thesis by blast
qed

lemma py_slice_nth:
  "c + n \<le> length xs \<Longrightarrow> i < n \<Longrightarrow> py_slice xs c (c + n) ! i = xs ! (c + i)"
  by (simp add: py_slice_def)

lemma py_slice_length: "c + n \<le> length xs \<Longrightarrow> length (py_slice xs c (c + n)) = n"
  by (simp add: py_slice_def)

lemma window_lengths:
  "c + n \<le> length xs \<Longrightarrow> map (\<lambda>i. h (xs ! (c + i))) [0..<n] = map h (py_slice xs c (c + n))"
  by (auto simp: py_slice_def list_eq_iff_nth_eq)

lemma batch_arrays_shape:
  assumes "batch_arrays ext g features texts c = Inr (inp, out)"
  shows "length (the_input inp) = minimum_batch_size g"
    and "length (the_labels inp) = minimum_batch_size g"
    and "length (input_length inp) = minimum_batch_size g"
    and "length (label_length inp) = minimum_batch_size g"
    and "length (ctc out) = minimum_batch_size g"
    and "i < minimum_batch_size g \<Longrightarrow> length (the_input inp ! i) =
           Max (set (map (\<lambda>i. nrows (features ! i)) [0..<minimum_batch_size g]))"
    and "i < minimum_batch_size g \<Longrightarrow> length (the_labels inp ! i) =
           Max (set (map (\<lambda>i. length (texts ! (c + i))) [0..<minimum_batch_size g]))"
proof -
  let ?bs = "minimum_batch_size g"
  let ?a0 = "allocate g (Max (set (map (\<lambda>i. nrows (features ! i)) [0..<?bs])))
                        (Max (set (map (\<lambda>i. length (texts ! (c + i))) [0..<?bs])))"
  from assms have fb: "fill_batch ext g features texts c [0..<?bs] ?a0 = Inr inp"
    and out: "out = \<lparr> ctc = replicate ?bs 0 \<rparr>"
    by (simp_all add: batch_arrays_Inr)
  note s = same_shape_lengths[OF fill_batch_shape[OF fb]]
  show "length (the_input inp) = ?bs" "length (the_labels inp) = ?bs"
    "length (input_length inp) = ?bs" "length (label_length inp) = ?bs"
    using s(1-4) by simp_all
  show "length (ctc out) = ?bs" by (simp add: out)
  show "length (the_input inp ! i) = Max (set (map (\<lambda>i. nrows (features ! i)) [0..<?bs]))"
    if "i < ?bs" using s(5)[of i] that by simp
  show "length (the_labels inp ! i) = Max (set (map (\<lambda>i. length (texts ! (c + i))) [0..<?bs]))"
    if "i < ?bs" using s(6)[of i] that by simp
qed

lemma batch_arrays_succeeds_iff:
  "(\<exists>r. batch_arrays ext g features texts c = Inr r) \<longleftrightarrow>
     0 < minimum_batch_size g \<and> minimum_batch_size g \<le> length features \<and>
     c + minimum_batch_size g \<le> length texts \<and>
     (\<forall>i<minimum_batch_size g.
        (ncols (features ! i) = input_width g \<or> ncols (features ! i) = 1) \<and>
        (\<exists>label. text_to_int_sequence ext (texts ! (c + i)) = Inr label \<and>
           (length label \<le> Max (set (map (\<lambda>i. length (texts ! (c + i))) [0..<minimum_batch_size g]))
              \<or> length label = 1)))"
  (is "?L \<longleftrightarrow> ?R")
proof
  assume ?L
  then obtain inp out where ba: "batch_arrays ext g features texts c = Inr (inp, out)" by auto
  then have "0 < minimum_batch_size g \<and> minimum_batch_size g \<le> length features \<and>
     c + minimum_batch_size g \<le> length texts"
    by (simp add: batch_arrays_Inr)
  moreover have "(ncols (features ! i) = input_width g \<or> ncols (features ! i) = 1) \<and>
        (\<exists>label. text_to_int_sequence ext (texts ! (c + i)) = Inr label \<and>
           (length label \<le> Max (set (map (\<lambda>i. length (texts ! (c + i))) [0..<minimum_batch_size g]))
              \<or> length label = 1))" if "i < minimum_batch_size g" for i
    using batch_arrays_example[OF ba that] by blast
  ultimately show ?R by blast
next
  let ?bs = "minimum_batch_size g"
  let ?MT = "Max (set (map (\<lambda>i. nrows (features ! i)) [0..<?bs]))"
  let ?MS = "Max (set (map (\<lambda>i. length (texts ! (c + i))) [0..<?bs]))"
  assume r: ?R
  have "example_fits ext g features texts c (allocate g ?MT ?MS) i" if "i \<in> set [0..<?bs]" for i
  proof -
    from that have i: "i < ?bs" by simp
    then have "nrows (features ! i) \<le> ?MT" by (intro Max_ge) auto
    with r i show ?thesis
      unfolding example_fits_def by (simp add: Suc_le_eq)
  qed
  then obtain arrs where "fill_batch ext g features texts c [0..<?bs] (allocate g ?MT ?MS) = Inr arrs"
    using fill_batch_succeeds_iff[of ext g features texts c "[0..<?bs]" "allocate g ?MT ?MS"]
    by blast
  with r show ?L by (simp add: batch_arrays_Inr)
qed

lemma window_ready_returns:
  assumes "window_ready ext g partition'"
  shows "\<exists>inp out. fst (get_batch ext partition' g) = Inr (inp, out)"
proof -
  let ?bs = "minimum_batch_size g"
  from assms obtain sel where s0: "select_partition partition' g = Inr sel"
    by (cases "select_partition partition' g") (simp_all add: window_ready_def)
  obtain audio_paths c texts where sel': "sel = (audio_paths, c, texts)" by (cases sel)
  note sel = s0[unfolded sel']
  from assms sel obtain features where wf: "fst (window_features ext audio_paths c g) = Inr features"
    by (cases "fst (window_features ext audio_paths c g)") (simp_all add: window_ready_def)
  from assms sel wf have bs: "0 < ?bs" and wa: "c + ?bs \<le> length audio_paths"
    and wt: "c + ?bs \<le> length texts"
    and wd: "list_all (\<lambda>f. ncols f = input_width g) features"
    and en: "list_all (\<lambda>t. case text_to_int_sequence ext t of
                                Inl e \<Rightarrow> False
                              | Inr label \<Rightarrow> length label = length t)
                 (py_slice texts c (c + ?bs))"
    by (simp_all add: window_ready_def)
  have lf: "length features = ?bs"
    using window_features_length[OF wf] wa by simp
  have "(ncols (features ! i) = input_width g \<or> ncols (features ! i) = 1) \<and>
        (\<exists>label. text_to_int_sequence ext (texts ! (c + i)) = Inr label \<and>
           (length label \<le> Max (set (map (\<lambda>i. length (texts ! (c + i))) [0..<?bs]))
              \<or> length label = 1))" if i: "i < ?bs" for i
  proof -
    have "ncols (features ! i) = input_width g"
      using wd i lf by (simp add: list_all_length)
    moreover have "case text_to_int_sequence ext (texts ! (c + i)) of
                                Inl e \<Rightarrow> False
                              | Inr label \<Rightarrow> length label = length (texts ! (c + i))"
    proof -
      have "i < length (py_slice texts c (c + ?bs))" using i wt by (simp add: py_slice_length)
      with en have "case text_to_int_sequence ext (py_slice texts c (c + ?bs) ! i) of
                                Inl e \<Rightarrow> False
                              | Inr label \<Rightarrow> length label = length (py_slice texts c (c + ?bs) ! i)"
        unfolding list_all_length by blast
      then show ?thesis by (simp only: py_slice_nth[OF wt i])
    qed
    then obtain label where "text_to_int_sequence ext (texts ! (c + i)) = Inr label"
      "length label = length (texts ! (c + i))"
      by (auto split: sum.splits)
    moreover have "length (texts ! (c + i)) \<le> Max (set (map (\<lambda>i. length (texts ! (c + i))) [0..<?bs]))"
      using i by (intro Max_ge) auto
    ultimately show ?thesis by auto
  qed
  with bs lf wt have "\<exists>r. batch_arrays ext g features texts c = Inr r"
    unfolding batch_arrays_succeeds_iff by simp
  with sel wf show ?thesis
    by (auto simp: get_batch_Inr)
qed

lemma demo_constructed_init:
  "AudioGenerator_init demo_ext 10 20 8000 13 3 None True 10 False = Inr demo_constructed"
  by (simp add: AudioGenerator_init_def demo_ext_def demo_constructed_def numeral_2_eq_2)

lemma demo_select:
  "select_partition ''train'' demo_generator =
     Inr ([''a.wav'', ''b.wav'', ''c.wav''], 0, [''hi'', ''hello there'', ''ok''])"
  by (simp add: select_partition_def demo_generator_def with_sequences_def demo_constructed_def
        demo_corpus_def)

lemma demo_fields [simp]:
  "minimum_batch_size demo_generator = 3"
  "input_width demo_generator = 2"
  "feats_mean demo_generator = [0, 0]"
  "feats_std demo_generator = [1, 1]"
  "spectrogram demo_generator"
  by (simp_all add: demo_generator_def with_sequences_def demo_constructed_def input_width_def)

lemma demo_features:
  "fst (window_features demo_ext [''a.wav'', ''b.wav'', ''c.wav''] 0 demo_generator) =
     Inr [Array2 2 [[1 / (1 + eps), 2 / (1 + eps)]],
          Array2 2 [[3 / (1 + eps), 4 / (1 + eps)], [5 / (1 + eps), 6 / (1 + eps)],
                    [7 / (1 + eps), 8 / (1 + eps)]],
          Array2 2 [[9 / (1 + eps), 10 / (1 + eps)], [11 / (1 + eps), 12 / (1 + eps)]]]"
  by (simp add: window_features_eq py_slice_def featurize_def normalize_def demo_ext_def
        demo_spectrogram_def array2_vec_op_def broadcast_dim_def stretch_def)

lemma upt_3: "[0..<3] = [0, Suc 0, Suc (Suc 0)]"
  by (simp add: upt_rec numeral_3_eq_3)

lemma demo_encoded:
  "text_to_int_sequence demo_ext ''hi'' = Inr [9, 10]"
  "text_to_int_sequence demo_ext ''hello there'' = Inr [9, 6, 13, 13, 16, 1, 21, 9, 6, 19, 6]"
  "text_to_int_sequence demo_ext ''ok'' = Inr [16, 12]"
  by (simp_all add: demo_ext_def demo_encode_def demo_code_def)

lemma demo_batch_arrays:
  "batch_arrays demo_ext demo_generator
     [Array2 2 [[1 / (1 + eps), 2 / (1 + eps)]],
      Array2 2 [[3 / (1 + eps), 4 / (1 + eps)], [5 / (1 + eps), 6 / (1 + eps)],
                [7 / (1 + eps), 8 / (1 + eps)]],
      Array2 2 [[9 / (1 + eps), 10 / (1 + eps)], [11 / (1 + eps), 12 / (1 + eps)]]]
     [''hi'', ''hello there'', ''ok''] 0 = Inr (demo_inputs, demo_outputs)"
  unfolding batch_arrays_def demo_fields upt_3
  by (simp add: py_index_def nrows_def allocate_def fill_example_def update_at_def
        assign_rows_def broadcast_to2_def assign_prefix_def broadcast_to_def stretch_def
        demo_encoded demo_inputs_def demo_outputs_def numeral_3_eq_3 numeral_2_eq_2)

lemma demo_batch:
  "fst (get_batch demo_ext ''train'' demo_generator) = Inr (demo_inputs, demo_outputs)"
  by (simp add: get_batch_eq demo_select demo_features demo_batch_arrays)

lemma demo_ready: "window_ready demo_ext demo_generator ''train''"
  by (simp add: window_ready_def demo_select demo_features py_slice_def demo_encoded)

lemma window_features_full:
  assumes "fst (window_features ext audio_paths c g) = Inr features"
      and "minimum_batch_size g \<le> length features"
  shows "map (\<lambda>i. nrows (features ! i)) [0..<minimum_batch_size g] = map nrows features"
proof -
  from window_features_length[OF assms(1)] assms(2)
  have "length features = minimum_batch_size g" by simp
  then show ?thesis by (auto simp: list_eq_iff_nth_eq)
qed

lemma mapE_index0_Inl:
  "mapE (\<lambda>i. bindE (py_index xs i) (\<lambda>x. Inr (h x))) is = Inl e \<Longrightarrow> e = IndexError"
proof (induction "is")
  case Nil
  then show ?case by simp
next
  case (Cons i "is")
  show ?case
  proof (cases "i < length xs")
    case True
    with Cons.prems have "bindE (mapE (\<lambda>i. bindE (py_index xs i) (\<lambda>x. Inr (h x))) is)
        (\<lambda>ys. Inr (h (xs ! i) # ys)) = Inl e"
      by (simp add: py_index_def)
    then have "mapE (\<lambda>i. bindE (py_index xs i) (\<lambda>x. Inr (h x))) is = Inl e"
      by (cases "mapE (\<lambda>i. bindE (py_index xs i) (\<lambda>x. Inr (h x))) is") simp_all
    then show ?thesis by (rule Cons.IH)
  next
    case False
    with Cons.prems show ?thesis by (simp add: py_index_def)
  qed
qed

text \<open>
  A window that runs past the end of the audio paths gives fewer features than the batch
  size, and line 72 raises IndexError: no smaller batch is returned.
\<close>

lemma get_batch_short_window:
  assumes "select_partition partition' g = Inr (audio_paths, c, texts)"
      and "fst (window_features ext audio_paths c g) = Inr features"
      and "length audio_paths < c + minimum_batch_size g"
      and "0 < minimum_batch_size g"
  shows "fst (get_batch ext partition' g) = Inl IndexError"
proof -
  let ?m = "mapE (\<lambda>i. bindE (py_index features i) (\<lambda>f. Inr (nrows f))) [0..<minimum_batch_size g]"
  from window_features_length[OF assms(2)] assms(3,4)
  have "length features < minimum_batch_size g" by arith
  then have "\<not> (\<forall>i\<in>set [0..<minimum_batch_size g]. i < length features)" by auto
  then have "?m \<noteq> Inr ys" for ys
    by (simp only: mapE_index0_Inr) blast
  then obtain e where e: "?m = Inl e" by (cases ?m) auto
  then have "e = IndexError" by (rule mapE_index0_Inl)
  with e have "batch_arrays ext g features texts c = Inl IndexError"
    by (simp add: batch_arrays_def)
  with assms(1,2) show ?thesis by (simp add: get_batch_eq)
qed

section \<open>The batch has the configured size\<close>

text \<open>
  Claim C3. When the partition is ready, \<^verbatim>\<open>get_batch\<close> returns a batch; and whatever
  batch \<^verbatim>\<open>get_batch\<close> returns, for any partition, cursor and collaborators, the input
  tensor, the label tensor, the two length vectors and the \<open>ctc\<close> placeholder all have
  exactly \<open>minimum_batch_size\<close> rows. There is no partial batch: a window that runs past
  the end of the partition raises IndexError instead.
\<close>

theorem get_batch_first_dimension:
  "(window_ready ext g partition' \<longrightarrow>
      (\<exists>inp out. fst (get_batch ext partition' g) = Inr (inp, out)))
   \<and> (\<forall>inp out. fst (get_batch ext partition' g) = Inr (inp, out) \<longrightarrow>
        length (the_input inp) = minimum_batch_size g \<and>
        length (the_labels inp) = minimum_batch_size g \<and>
        length (input_length inp) = minimum_batch_size g \<and>
        length (label_length inp) = minimum_batch_size g \<and>
        length (ctc out) = minimum_batch_size g)"
proof (intro conjI impI allI)
  assume "window_ready ext g partition'"
  then show "\<exists>inp out. fst (get_batch ext partition' g) = Inr (inp, out)"
    by (rule window_ready_returns)
next
  fix inp out
  assume "fst (get_batch ext partition' g) = Inr (inp, out)"
  then obtain features texts c where ba: "batch_arrays ext g features texts c = Inr (inp, out)"
    unfolding get_batch_Inr by blast
  show "length (the_input inp) = minimum_batch_size g"
    "length (the_labels inp) = minimum_batch_size g"
    "length (input_length inp) = minimum_batch_size g"
    "length (label_length inp) = minimum_batch_size g"
    "length (ctc out) = minimum_batch_size g"
    using batch_arrays_shape(1-5)[OF ba] by simp_all
qed

text \<open>
  The example's training partition is ready, and its batch has three rows in every array.
\<close>

theorem get_batch_first_dimension_witness:
  "window_ready demo_ext demo_generator ''train''
   \<and> fst (get_batch demo_ext ''train'' demo_generator) = Inr (demo_inputs, demo_outputs)
   \<and> minimum_batch_size demo_generator = 3
   \<and> length (the_input demo_inputs) = 3 \<and> length (the_labels demo_inputs) = 3
   \<and> length (input_length demo_inputs) = 3 \<and> length (label_length demo_inputs) = 3
   \<and> length (ctc demo_outputs) = 3"
  using get_batch_first_dimension[of demo_ext demo_generator "''train''"] demo_batch demo_ready
  by simp

section \<open>Padding\<close>

text \<open>The example encoder has the 28 codes 0 to 27.\<close>

lemma mapE_set:
  "mapE f xs = Inr ys \<Longrightarrow> y \<in> set ys \<Longrightarrow> \<exists>x\<in>set xs. f x = Inr y"
  by (induction xs arbitrary: ys) (auto simp: bindE_eq_Inr)

lemma demo_code_range: "demo_code c = Inr k \<Longrightarrow> 0 \<le> k \<and> k \<le> 27"
  by (auto simp: demo_code_def split: if_splits)

lemma demo_code_onto:
  assumes "0 \<le> k" "k \<le> 27"
  shows "\<exists>c. demo_code c = Inr k"
proof -
  consider "k = 0" | "k = 1" | "2 \<le> k" using assms by linarith
  then show ?thesis
  proof cases
    case 1
    then show ?thesis by (auto simp: demo_code_def intro: exI[of _ "CHR 0x27"])
  next
    case 2
    then show ?thesis by (auto simp: demo_code_def intro: exI[of _ "CHR '' ''"])
  next
    case 3
    let ?c = "char_of (nat k + 95) :: char"
    have o: "(of_char ?c :: nat) = nat k + 95"
      using assms by simp
    have "?c \<noteq> CHR 0x27" "?c \<noteq> CHR '' ''"
      using o 3 by (auto dest: arg_cong[where f = "of_char :: char \<Rightarrow> nat"])
    with o 3 assms have "demo_code ?c = Inr k"
      by (auto simp: demo_code_def)
    then show ?thesis by blast
  qed
qed

lemma demo_real_codes: "real_codes demo_ext = {0..27}"
proof (intro set_eqI iffI)
  fix k assume "k \<in> real_codes demo_ext"
  then obtain t label where "mapE demo_code t = Inr label" "k \<in> set label"
    by (auto simp: real_codes_def demo_ext_def demo_encode_def)
  from mapE_set[OF this] demo_code_range show "k \<in> {0..27}" by auto
next
  fix k :: int assume "k \<in> {0..27}"
  then obtain c where "demo_code c = Inr k" using demo_code_onto[of k] by auto
  then have "text_to_int_sequence demo_ext [c] = Inr [k]"
    by (simp add: demo_ext_def demo_encode_def)
  then show "k \<in> real_codes demo_ext"
    unfolding real_codes_def by (intro CollectI exI[of _ "[c]"] exI[of _ "[k]"]) simp
qed

text \<open>With the codes 0 to 27, the constant 28 of line 80 is the vocabulary size.\<close>

lemma vocabulary_28:
  assumes "real_codes ext = {0..27}"
  shows "vocabulary_size ext = 28" "Max (real_codes ext) + 1 = 28"
proof -
  show "vocabulary_size ext = 28" by (simp add: vocabulary_size_def assms)
  have "Max {0..27 :: int} = 27" by (rule Max_eqI) auto
  then show "Max (real_codes ext) + 1 = 28" by (simp add: assms)
qed

text \<open>
  Claim C1. When the partition is ready, \<^verbatim>\<open>get_batch\<close> returns a batch; and in whatever
  batch it returns, every example \<open>i\<close> has a recorded input length \<open>T\<close> and a recorded
  label length \<open>n\<close> such that every row of its block of the input tensor at a time index
  from \<open>T\<close> on is the zero row, and every entry of its label row at a column from \<open>n\<close>
  on is the blank, the constant 28 of line 80. The vocabulary is the table of utils,
  which is not part of preprocessing.py: when its codes are 0 to 27, the blank is the
  vocabulary size, one past the last character code, and the entries of the label row
  before column \<open>n\<close> are character codes, so that none of them is the blank.
\<close>

theorem get_batch_padding:
  "(window_ready ext g partition' \<longrightarrow>
      (\<exists>inp out. fst (get_batch ext partition' g) = Inr (inp, out)))
   \<and> (\<forall>inp out i. fst (get_batch ext partition' g) = Inr (inp, out) \<and> i < minimum_batch_size g \<longrightarrow>
        (\<exists>T n. input_length inp ! i = [real T] \<and> label_length inp ! i = [real n] \<and>
           (\<forall>t. T \<le> t \<and> t < length (the_input inp ! i) \<longrightarrow>
                the_input inp ! i ! t = replicate (input_width g) 0) \<and>
           (\<forall>k. n \<le> k \<and> k < length (the_labels inp ! i) \<longrightarrow> the_labels inp ! i ! k = 28) \<and>
           (real_codes ext = {0..27} \<longrightarrow>
              (\<forall>k. n \<le> k \<and> k < length (the_labels inp ! i) \<longrightarrow>
                   the_labels inp ! i ! k = real (vocabulary_size ext) \<and>
                   the_labels inp ! i ! k = real_of_int (Max (real_codes ext) + 1)) \<and>
              (\<forall>k. k < n \<and> k < length (the_labels inp ! i) \<longrightarrow>
                   (\<exists>c \<in> real_codes ext. the_labels inp ! i ! k = real_of_int c) \<and>
                   the_labels inp ! i ! k < real (vocabulary_size ext)))))"
proof (intro conjI impI allI)
  assume "window_ready ext g partition'"
  then show "\<exists>inp out. fst (get_batch ext partition' g) = Inr (inp, out)"
    by (rule window_ready_returns)
next
  fix inp out i
  assume a: "fst (get_batch ext partition' g) = Inr (inp, out) \<and> i < minimum_batch_size g"
  then obtain features texts c where ba: "batch_arrays ext g features texts c = Inr (inp, out)"
    unfolding get_batch_Inr by blast
  let ?MT = "Max (set (map (\<lambda>i. nrows (features ! i)) [0..<minimum_batch_size g]))"
  let ?MS = "Max (set (map (\<lambda>i. length (texts ! (c + i))) [0..<minimum_batch_size g]))"
  let ?row = "the_labels inp ! i"
  from a have i: "i < minimum_batch_size g" by simp
  from batch_arrays_example[OF ba i] obtain label where
    enc: "text_to_int_sequence ext (texts ! (c + i)) = Inr label"
    and il: "input_length inp ! i = [real (nrows (features ! i))]"
    and ll: "label_length inp ! i = [real (length label)]"
    and ti: "the_input inp ! i = map (stretch (input_width g)) (rows (features ! i))
               @ replicate (?MT - nrows (features ! i)) (replicate (input_width g) 0)"
    and tl: "?row = take ?MS (map real_of_int label)
               @ replicate (?MS - length label) 28"
    by blast
  have z: "the_input inp ! i ! t = replicate (input_width g) 0"
    if "nrows (features ! i) \<le> t \<and> t < length (the_input inp ! i)" for t
    using that unfolding ti by (auto simp: nth_append nrows_def)
  have b: "?row ! k = 28" if "length label \<le> k \<and> k < length ?row" for k
    using that unfolding tl by (auto simp: nth_append min_def split: if_splits)
  have r: "?row ! k = real_of_int (label ! k) \<and> label ! k \<in> real_codes ext"
    if "k < length label \<and> k < length ?row" for k
  proof
    from that show "?row ! k = real_of_int (label ! k)"
      unfolding tl by (auto simp: nth_append min_def split: if_splits)
    from that enc show "label ! k \<in> real_codes ext"
      unfolding real_codes_def by (intro CollectI exI[of _ "texts ! (c + i)"] exI[of _ label]) simp
  qed
  have v: "(\<forall>k. length label \<le> k \<and> k < length ?row \<longrightarrow>
                ?row ! k = real (vocabulary_size ext) \<and>
                ?row ! k = real_of_int (Max (real_codes ext) + 1)) \<and>
           (\<forall>k. k < length label \<and> k < length ?row \<longrightarrow>
                (\<exists>c \<in> real_codes ext. ?row ! k = real_of_int c) \<and>
                ?row ! k < real (vocabulary_size ext))"
    if voc: "real_codes ext = {0..27}"
  proof (intro conjI allI impI)
    fix k assume k: "length label \<le> k \<and> k < length ?row"
    from b[OF k] vocabulary_28(1)[OF voc] show "?row ! k = real (vocabulary_size ext)" by simp
    from b[OF k] vocabulary_28(2)[OF voc] show "?row ! k = real_of_int (Max (real_codes ext) + 1)"
      by simp
  next
    fix k assume k: "k < length label \<and> k < length ?row"
    from r[OF k] show "\<exists>c \<in> real_codes ext. ?row ! k = real_of_int c" by blast
    from r[OF k] voc have "label ! k \<le> 27" by simp
    with r[OF k] vocabulary_28(1)[OF voc] show "?row ! k < real (vocabulary_size ext)" by simp
  qed
  show "\<exists>T n. input_length inp ! i = [real T] \<and> label_length inp ! i = [real n] \<and>
           (\<forall>t. T \<le> t \<and> t < length (the_input inp ! i) \<longrightarrow>
                the_input inp ! i ! t = replicate (input_width g) 0) \<and>
           (\<forall>k. n \<le> k \<and> k < length ?row \<longrightarrow> ?row ! k = 28) \<and>
           (real_codes ext = {0..27} \<longrightarrow>
              (\<forall>k. n \<le> k \<and> k < length ?row \<longrightarrow>
                   ?row ! k = real (vocabulary_size ext) \<and>
                   ?row ! k = real_of_int (Max (real_codes ext) + 1)) \<and>
              (\<forall>k. k < n \<and> k < length ?row \<longrightarrow>
                   (\<exists>c \<in> real_codes ext. ?row ! k = real_of_int c) \<and>
                   ?row ! k < real (vocabulary_size ext)))"
  proof (rule exI[of _ "nrows (features ! i)"], rule exI[of _ "length label"], intro conjI)
    show "input_length inp ! i = [real (nrows (features ! i))]" by (rule il)
    show "label_length inp ! i = [real (length label)]" by (rule ll)
    show "\<forall>t. nrows (features ! i) \<le> t \<and> t < length (the_input inp ! i) \<longrightarrow>
                the_input inp ! i ! t = replicate (input_width g) 0"
      using z by blast
    show "\<forall>k. length label \<le> k \<and> k < length ?row \<longrightarrow> ?row ! k = 28" using b by blast
    show "real_codes ext = {0..27} \<longrightarrow>
              (\<forall>k. length label \<le> k \<and> k < length ?row \<longrightarrow>
                   ?row ! k = real (vocabulary_size ext) \<and>
                   ?row ! k = real_of_int (Max (real_codes ext) + 1)) \<and>
              (\<forall>k. k < length label \<and> k < length ?row \<longrightarrow>
                   (\<exists>c \<in> real_codes ext. ?row ! k = real_of_int c) \<and>
                   ?row ! k < real (vocabulary_size ext))"
      using v by blast
  qed
qed

text \<open>
  In the example, the clip of one time step is followed by two zero rows, and the two
  codes of \<open>hi\<close>, 9 and 10, by nine blanks; the encoder has the codes 0 to 27, and the
  blank is the vocabulary size, 28.
\<close>

theorem get_batch_padding_witness:
  "window_ready demo_ext demo_generator ''train''
   \<and> real_codes demo_ext = {0..27}
   \<and> fst (get_batch demo_ext ''train'' demo_generator) = Inr (demo_inputs, demo_outputs)
   \<and> input_length demo_inputs ! 0 = [1] \<and> label_length demo_inputs ! 0 = [2]
   \<and> the_input demo_inputs ! 0 ! 1 = replicate (input_width demo_generator) 0
   \<and> the_input demo_inputs ! 0 ! 2 = replicate (input_width demo_generator) 0
   \<and> the_labels demo_inputs ! 0 ! 2 = 28
   \<and> the_labels demo_inputs ! 0 ! 10 = 28
   \<and> the_labels demo_inputs ! 0 ! 2 = real (vocabulary_size demo_ext)
   \<and> the_labels demo_inputs ! 0 ! 10 = real_of_int (Max (real_codes demo_ext) + 1)
   \<and> the_labels demo_inputs ! 0 ! 0 = 9
   \<and> the_labels demo_inputs ! 0 ! 1 < real (vocabulary_size demo_ext)"
proof -
  have "0 < minimum_batch_size demo_generator" by simp
  with get_batch_padding[of demo_ext demo_generator "''train''"] demo_batch demo_real_codes
  obtain T n where il: "input_length demo_inputs ! 0 = [real T]"
    and ll: "label_length demo_inputs ! 0 = [real n]"
    and z: "\<forall>t. T \<le> t \<and> t < length (the_input demo_inputs ! 0) \<longrightarrow>
                the_input demo_inputs ! 0 ! t = replicate (input_width demo_generator) 0"
    and b: "\<forall>k. n \<le> k \<and> k < length (the_labels demo_inputs ! 0) \<longrightarrow>
                the_labels demo_inputs ! 0 ! k = 28"
    and w: "\<forall>k. n \<le> k \<and> k < length (the_labels demo_inputs ! 0) \<longrightarrow>
                the_labels demo_inputs ! 0 ! k = real (vocabulary_size demo_ext) \<and>
                the_labels demo_inputs ! 0 ! k = real_of_int (Max (real_codes demo_ext) + 1)"
    and c: "\<forall>k. k < n \<and> k < length (the_labels demo_inputs ! 0) \<longrightarrow>
                (\<exists>c \<in> real_codes demo_ext. the_labels demo_inputs ! 0 ! k = real_of_int c) \<and>
                the_labels demo_inputs ! 0 ! k < real (vocabulary_size demo_ext)"
    by blast
  have v: "input_length demo_inputs ! 0 = [1]" "label_length demo_inputs ! 0 = [2]"
    "length (the_input demo_inputs ! 0) = 3" "length (the_labels demo_inputs ! 0) = 11"
    "the_labels demo_inputs ! 0 ! 0 = 9"
    by (simp_all add: demo_inputs_def)
  from il v(1) have T: "T = 1" by simp
  from ll v(2) have n: "n = 2" by simp
  from z T v(3) have "the_input demo_inputs ! 0 ! 1 = replicate (input_width demo_generator) 0"
    "the_input demo_inputs ! 0 ! 2 = replicate (input_width demo_generator) 0"
    by simp_all
  moreover from b n v(4) have "the_labels demo_inputs ! 0 ! 2 = 28" "the_labels demo_inputs ! 0 ! 10 = 28"
    by simp_all
  moreover from w[rule_format, of 2] n v(4)
  have "the_labels demo_inputs ! 0 ! 2 = real (vocabulary_size demo_ext)"
    by simp
  moreover from w[rule_format, of 10] n v(4)
  have "the_labels demo_inputs ! 0 ! 10 = real_of_int (Max (real_codes demo_ext) + 1)"
    by simp
  moreover from c[rule_format, of 1] n v(4)
  have "the_labels demo_inputs ! 0 ! 1 < real (vocabulary_size demo_ext)"
    by simp
  ultimately show ?thesis using demo_batch demo_ready demo_real_codes v(1,2,5) by simp
qed

section \<open>The padded sizes are the maxima of the window\<close>

text \<open>
  Claim C4. When the partition is ready, \<^verbatim>\<open>get_batch\<close> returns a batch; and in whatever
  batch it returns, every block of the input tensor has as many rows as the longest of
  the window's normalized feature matrices, and every label row as many entries as the
  longest of the window's transcripts has characters.
\<close>

theorem get_batch_exact_maxima:
  "(window_ready ext g partition' \<longrightarrow>
      (\<exists>inp out. fst (get_batch ext partition' g) = Inr (inp, out)))
   \<and> (\<forall>inp out audio_paths cur_index texts features i.
        fst (get_batch ext partition' g) = Inr (inp, out) \<and>
        select_partition partition' g = Inr (audio_paths, cur_index, texts) \<and>
        fst (window_features ext audio_paths cur_index g) = Inr features \<and>
        i < minimum_batch_size g \<longrightarrow>
          length (the_input inp ! i) = Max (set (map nrows features)) \<and>
          length (the_labels inp ! i) =
            Max (set (map length
              (py_slice texts cur_index (cur_index + minimum_batch_size g)))))"
proof (intro conjI impI allI)
  assume "window_ready ext g partition'"
  then show "\<exists>inp out. fst (get_batch ext partition' g) = Inr (inp, out)"
    by (rule window_ready_returns)
next
  fix inp out audio_paths c texts features i
  assume a: "fst (get_batch ext partition' g) = Inr (inp, out) \<and>
        select_partition partition' g = Inr (audio_paths, c, texts) \<and>
        fst (window_features ext audio_paths c g) = Inr features \<and>
        i < minimum_batch_size g"
  then have ba: "batch_arrays ext g features texts c = Inr (inp, out)"
    and wf: "fst (window_features ext audio_paths c g) = Inr features"
    and i: "i < minimum_batch_size g"
    by (auto simp: get_batch_Inr)
  from ba have le: "minimum_batch_size g \<le> length features"
    and wt: "c + minimum_batch_size g \<le> length texts"
    by (simp_all add: batch_arrays_Inr)
  show "length (the_input inp ! i) = Max (set (map nrows features))"
    using batch_arrays_shape(6)[OF ba i] window_features_full[OF wf le] by simp
  show "length (the_labels inp ! i) =
      Max (set (map length (py_slice texts c (c + minimum_batch_size g))))"
    using batch_arrays_shape(7)[OF ba i] window_lengths[OF wt, of length] by simp
qed

text \<open>
  In the example the time dimension is 3, the rows of the 3-second clip, and the label
  width is the length of \<open>hello there\<close>.
\<close>

theorem get_batch_exact_maxima_witness:
  "window_ready demo_ext demo_generator ''train''
   \<and> fst (get_batch demo_ext ''train'' demo_generator) = Inr (demo_inputs, demo_outputs)
   \<and> length (the_input demo_inputs ! 0) = 3
   \<and> length (the_labels demo_inputs ! 0) = length ''hello there''"
proof -
  have "0 < minimum_batch_size demo_generator" by simp
  with get_batch_exact_maxima[of demo_ext demo_generator "''train''"] demo_batch demo_select
    demo_features
  have "length (the_input demo_inputs ! 0) =
      Max (set (map nrows
        [Array2 2 [[1 / (1 + eps), 2 / (1 + eps)]],
          Array2 2 [[3 / (1 + eps), 4 / (1 + eps)], [5 / (1 + eps), 6 / (1 + eps)],
                    [7 / (1 + eps), 8 / (1 + eps)]],
          Array2 2 [[9 / (1 + eps), 10 / (1 + eps)], [11 / (1 + eps), 12 / (1 + eps)]]]))"
    and "length (the_labels demo_inputs ! 0) =
      Max (set (map length (py_slice [''hi'', ''hello there'', ''ok''] 0
                 (0 + minimum_batch_size demo_generator))))"
    by blast+
  then show ?thesis using demo_batch demo_ready by (simp add: nrows_def py_slice_def)
qed

section \<open>get_batch changes nothing\<close>

text \<open>
  Claim C8. \<^verbatim>\<open>get_batch\<close> leaves the generator as it found it, whether it returns a batch
  or raises: the three cursors, the normalization statistics and the sequences of every
  partition are fields of the state, and the state after the call is the state before.
\<close>

theorem get_batch_no_side_effects:
  "snd (get_batch ext partition' g) = g"
  by (simp add: get_batch_eq)

lemma fill_batch_sort_flag:
  "fill_batch ext (g\<lparr>sort_by_duration := b\<rparr>) features texts c is arrs =
   fill_batch ext g features texts c is arrs"
proof (induction "is" arbitrary: arrs)
  case Nil
  show ?case by simp
next
  case (Cons i "is")
  have "fill_example ext (g\<lparr>sort_by_duration := b\<rparr>) features texts c i arrs =
        fill_example ext g features texts c i arrs"
    by (simp add: fill_example_def input_width_def)
  moreover have "fill_batch ext (g\<lparr>sort_by_duration := b\<rparr>) features texts c is =
        fill_batch ext g features texts c is"
    by (rule ext) (rule Cons.IH)
  ultimately show ?case by simp
qed

section \<open>The duration-sort flag is not consulted\<close>

text \<open>
  Claim C9. Two generators that differ only in \<open>sort_by_duration\<close> give the same result
  of \<^verbatim>\<open>get_batch\<close>, the same batch or the same exception, for every partition and every
  collaborator.
\<close>

theorem get_batch_ignores_sort_flag:
  "fst (get_batch ext partition' (g\<lparr>sort_by_duration := b\<rparr>)) = fst (get_batch ext partition' g)"
proof -
  have 1: "select_partition partition' (g\<lparr>sort_by_duration := b\<rparr>) = select_partition partition' g"
    by (simp add: select_partition_def split: option.splits)
  have 2: "fst (window_features ext audio_paths c (g\<lparr>sort_by_duration := b\<rparr>)) =
           fst (window_features ext audio_paths c g)" for audio_paths c
  proof -
    have "fst (featurize ext a (g\<lparr>sort_by_duration := b\<rparr>)) = fst (featurize ext a g)" for a
      by (cases "spectrogram g") (simp_all add: featurize_def)
    moreover have "fst (normalize f (g\<lparr>sort_by_duration := b\<rparr>)) = fst (normalize f g)" for f
      by (simp add: normalize_def)
    ultimately show ?thesis by (simp add: window_features_eq)
  qed
  have 3: "batch_arrays ext (g\<lparr>sort_by_duration := b\<rparr>) features texts c =
           batch_arrays ext g features texts c" for features texts c
    by (simp add: batch_arrays_def allocate_def input_width_def fill_batch_sort_flag)
  show ?thesis
    by (simp add: get_batch_eq 1 2 3)
qed

section \<open>Partition names\<close>

text \<open>
  Claim C2 fails on the code for the test partition. Whatever the arguments of the
  constructor and whatever sequences the object is given, \<^verbatim>\<open>get_batch('test')\<close> raises
  AttributeError: line 62 reads \<^verbatim>\<open>self.test_valid_index\<close>, and the constructor sets
  \<^verbatim>\<open>self.cur_test_index\<close>.
\<close>

theorem get_batch_test_raises_AttributeError:
  "\<exists>obj. AudioGenerator_init ext step' window' max_freq' mfcc_dim' minimum_batch_size' None
            spectrogram' max_duration' sort_by_duration' = Inr obj
         \<and> fst (get_batch ext ''test'' (with_sequences desc obj)) = Inl AttributeError"
  by (simp add: get_batch_eq select_partition_def AudioGenerator_init_def with_sequences_def)

text \<open>With a description file the constructor itself raises (line 34).\<close>

lemma AudioGenerator_init_desc_file:
  "AudioGenerator_init ext step' window' max_freq' mfcc_dim' minimum_batch_size' (Some desc_file)
     spectrogram' max_duration' sort_by_duration' = Inl AttributeError"
  by (simp add: AudioGenerator_init_def)

text \<open>The invalid-partition exception is raised for the unrecognized names and only for them.\<close>

lemma select_partition_InvalidArgument:
  "select_partition partition' g = Inl InvalidArgument \<longleftrightarrow>
     partition' \<notin> {''train'', ''valid'', ''test''}"
  by (simp add: select_partition_def split: option.splits)

lemma get_batch_InvalidArgument:
  "partition' \<notin> {''train'', ''valid'', ''test''} \<Longrightarrow>
     get_batch ext partition' g = (Inl InvalidArgument, g)"
  by (simp add: get_batch_def select_partition_def)

lemma shuffle_data_by_partition_InvalidArgument:
  "partition' \<notin> {''train'', ''valid''} \<Longrightarrow>
     shuffle_data_by_partition ext partition' g = (Inl InvalidArgument, g)"
  by (simp add: shuffle_data_by_partition_def)

text \<open>
  \<^verbatim>\<open>normalize\<close> raises when the statistics are neither as long as the matrix is wide nor
  of length one; it succeeds, keeping the shape, when they are as long as it is wide.
\<close>

lemma normalize_shape_mismatch:
  assumes "ncols feature \<noteq> length (feats_mean g)" "ncols feature \<noteq> 1" "length (feats_mean g) \<noteq> 1"
  shows "fst (normalize feature g) = Inl ValueError"
  using assms by (simp add: normalize_def array2_vec_op_def broadcast_dim_def)

lemma normalize_same_width:
  assumes "length (feats_mean g) = ncols feature" "length (feats_std g) = ncols feature"
  shows "\<exists>r. fst (normalize feature g) = Inr r \<and> ncols r = ncols feature \<and> nrows r = nrows feature"
  using assms by (simp add: normalize_def array2_vec_op_def broadcast_dim_def nrows_def)

section \<open>Normalization\<close>

text \<open>
  Claim C5 fails on the code in cepstral mode. The constructor gives the statistics the
  length \<open>feat_dim\<close>, the spectrogram dimension, whatever the mode (lines 30-31), while
  line 79 gives the input tensor the width of the active mode. With the defaults, a
  matrix of 13 cepstral coefficients against statistics of length 161 does not broadcast.
\<close>

theorem normalize_cepstral_raises_ValueError:
  "\<exists>obj. AudioGenerator_init cepstral_ext 10 20 8000 13 20 None False 10 False = Inr obj
         \<and> fst (normalize (Array2 13 rows') (with_sequences desc obj)) = Inl ValueError"
  by (simp add: normalize_def array2_vec_op_def broadcast_dim_def AudioGenerator_init_def
        with_sequences_def cepstral_ext_def)

section \<open>Label rows and the encoder\<close>

text \<open>
  Claim C10. Take a window in range whose clips featurize and normalize to matrices of
  the tensor's width, and let \<open>label i\<close> be what the encoder returns for transcript \<open>i\<close>
  of the window. In whatever batch \<^verbatim>\<open>get_batch\<close> returns, every label row has the width of
  the longest transcript of the window, holds the codes of its transcript followed by
  blanks, and \<open>label_length\<close> records the number of codes. And \<^verbatim>\<open>get_batch\<close> returns a batch
  in which every example's codes fit the width of its row and its recorded label length
  is its transcript's character count exactly when the encoder returned one code per
  character for every transcript of the window.
\<close>

theorem label_rows_fit_iff_one_code_per_character:
  assumes sel: "select_partition partition' g = Inr (audio_paths, cur_index, texts)"
      and bs: "0 < minimum_batch_size g"
      and wa: "cur_index + minimum_batch_size g \<le> length audio_paths"
      and wt: "cur_index + minimum_batch_size g \<le> length texts"
      and wf: "fst (window_features ext audio_paths cur_index g) = Inr features"
      and wd: "list_all (\<lambda>f. ncols f = input_width g) features"
      and en: "\<forall>i<minimum_batch_size g.
                 text_to_int_sequence ext (texts ! (cur_index + i)) = Inr (label i)"
  shows "(\<forall>inp out i. fst (get_batch ext partition' g) = Inr (inp, out) \<and> i < minimum_batch_size g \<longrightarrow>
            length (the_labels inp ! i) =
              Max (set (map length (py_slice texts cur_index (cur_index + minimum_batch_size g)))) \<and>
            the_labels inp ! i =
              take (length (the_labels inp ! i)) (map real_of_int (label i))
                @ replicate (length (the_labels inp ! i) - length (label i)) 28 \<and>
            label_length inp ! i = [real (length (label i))])
       \<and> ((\<exists>inp out. fst (get_batch ext partition' g) = Inr (inp, out) \<and>
              (\<forall>i<minimum_batch_size g.
                 length (label i) \<le> length (the_labels inp ! i) \<and>
                 label_length inp ! i = [real (length (texts ! (cur_index + i)))]))
            \<longleftrightarrow> (\<forall>i<minimum_batch_size g. length (label i) = length (texts ! (cur_index + i))))"
proof -
  let ?bs = "minimum_batch_size g"
  let ?MS = "Max (set (map (\<lambda>i. length (texts ! (cur_index + i))) [0..<?bs]))"
  have MS: "?MS = Max (set (map length (py_slice texts cur_index (cur_index + ?bs))))"
    using window_lengths[OF wt, of length] by simp
  have lf: "length features = ?bs"
    using window_features_length[OF wf] wa by simp
  have row: "length (the_labels inp ! i) = ?MS \<and>
            the_labels inp ! i = take ?MS (map real_of_int (label i))
                @ replicate (?MS - length (label i)) 28 \<and>
            label_length inp ! i = [real (length (label i))]"
    if r: "fst (get_batch ext partition' g) = Inr (inp, out)" and i: "i < ?bs" for inp out i
  proof -
    from r sel wf have ba: "batch_arrays ext g features texts cur_index = Inr (inp, out)"
      by (auto simp: get_batch_Inr)
    from batch_arrays_example[OF ba i] en i batch_arrays_shape(7)[OF ba i]
    show ?thesis by auto
  qed
  have A: "\<forall>inp out i. fst (get_batch ext partition' g) = Inr (inp, out) \<and> i < ?bs \<longrightarrow>
            length (the_labels inp ! i) =
              Max (set (map length (py_slice texts cur_index (cur_index + ?bs)))) \<and>
            the_labels inp ! i =
              take (length (the_labels inp ! i)) (map real_of_int (label i))
                @ replicate (length (the_labels inp ! i) - length (label i)) 28 \<and>
            label_length inp ! i = [real (length (label i))]"
  proof (intro allI impI)
    fix inp out i
    assume a: "fst (get_batch ext partition' g) = Inr (inp, out) \<and> i < ?bs"
    then have "length (the_labels inp ! i) = ?MS \<and>
            the_labels inp ! i = take ?MS (map real_of_int (label i))
                @ replicate (?MS - length (label i)) 28 \<and>
            label_length inp ! i = [real (length (label i))]"
      using row[of inp out i] by blast
    then have l: "length (the_labels inp ! i) = ?MS"
      and t: "the_labels inp ! i = take ?MS (map real_of_int (label i))
                @ replicate (?MS - length (label i)) 28"
      and ll: "label_length inp ! i = [real (length (label i))]"
      by blast+
    show "length (the_labels inp ! i) =
              Max (set (map length (py_slice texts cur_index (cur_index + ?bs)))) \<and>
            the_labels inp ! i =
              take (length (the_labels inp ! i)) (map real_of_int (label i))
                @ replicate (length (the_labels inp ! i) - length (label i)) 28 \<and>
            label_length inp ! i = [real (length (label i))]"
      unfolding l using MS t ll by blast
  qed
  have B1: "\<forall>i<?bs. length (label i) = length (texts ! (cur_index + i))"
    if "\<exists>inp out. fst (get_batch ext partition' g) = Inr (inp, out) \<and>
              (\<forall>i<?bs. length (label i) \<le> length (the_labels inp ! i) \<and>
                 label_length inp ! i = [real (length (texts ! (cur_index + i)))])"
  proof (intro allI impI)
    fix i assume i: "i < ?bs"
    from that obtain inp out where r: "fst (get_batch ext partition' g) = Inr (inp, out)"
      and l: "label_length inp ! i = [real (length (texts ! (cur_index + i)))]"
      using i by blast
    from row[OF r i] l show "length (label i) = length (texts ! (cur_index + i))" by simp
  qed
  have B2: "\<exists>inp out. fst (get_batch ext partition' g) = Inr (inp, out) \<and>
              (\<forall>i<?bs. length (label i) \<le> length (the_labels inp ! i) \<and>
                 label_length inp ! i = [real (length (texts ! (cur_index + i)))])"
    if one: "\<forall>i<?bs. length (label i) = length (texts ! (cur_index + i))"
  proof -
    have fit: "(ncols (features ! i) = input_width g \<or> ncols (features ! i) = 1) \<and>
        (\<exists>l. text_to_int_sequence ext (texts ! (cur_index + i)) = Inr l \<and>
           (length l \<le> ?MS \<or> length l = 1))" if i: "i < ?bs" for i
    proof -
      have "ncols (features ! i) = input_width g"
        using wd i lf by (simp add: list_all_length)
      moreover have "length (texts ! (cur_index + i)) \<le> ?MS"
        using i by (intro Max_ge) auto
      ultimately show ?thesis using en one i by auto
    qed
    with bs lf wt have "\<exists>r. batch_arrays ext g features texts cur_index = Inr r"
      unfolding batch_arrays_succeeds_iff by simp
    then obtain inp out where ba: "batch_arrays ext g features texts cur_index = Inr (inp, out)"
      by auto
    with sel wf have r: "fst (get_batch ext partition' g) = Inr (inp, out)"
      by (auto simp: get_batch_Inr)
    have "length (label i) \<le> length (the_labels inp ! i) \<and>
          label_length inp ! i = [real (length (texts ! (cur_index + i)))]" if i: "i < ?bs" for i
    proof -
      have "length (texts ! (cur_index + i)) \<le> ?MS"
        using i by (intro Max_ge) auto
      with row[OF r i] one i show ?thesis by simp
    qed
    with r show ?thesis by blast
  qed
  show ?thesis
  proof (intro conjI)
    show "\<forall>inp out i. fst (get_batch ext partition' g) = Inr (inp, out) \<and> i < ?bs \<longrightarrow>
            length (the_labels inp ! i) =
              Max (set (map length (py_slice texts cur_index (cur_index + ?bs)))) \<and>
            the_labels inp ! i =
              take (length (the_labels inp ! i)) (map real_of_int (label i))
                @ replicate (length (the_labels inp ! i) - length (label i)) 28 \<and>
            label_length inp ! i = [real (length (label i))]"
      by (rule A)
    show "(\<exists>inp out. fst (get_batch ext partition' g) = Inr (inp, out) \<and>
              (\<forall>i<?bs. length (label i) \<le> length (the_labels inp ! i) \<and>
                 label_length inp ! i = [real (length (texts ! (cur_index + i)))]))
            \<longleftrightarrow> (\<forall>i<?bs. length (label i) = length (texts ! (cur_index + i)))"
      using B1 B2 by (rule iffI)
  qed
qed

lemma demo_label_encoded:
  "\<forall>i<minimum_batch_size demo_generator.
     text_to_int_sequence demo_ext ([''hi'', ''hello there'', ''ok''] ! (0 + i)) = Inr (demo_label i)"
proof (intro allI impI)
  fix i assume "i < minimum_batch_size demo_generator"
  then have "i = 0 \<or> i = 1 \<or> i = 2" by auto
  then show "text_to_int_sequence demo_ext ([''hi'', ''hello there'', ''ok''] ! (0 + i)) = Inr (demo_label i)"
    by (auto simp: demo_encoded demo_label_def)
qed

text \<open>
  In the example the encoder returns one code per character, and the batch records the
  character counts 2, 11 and 2.
\<close>

theorem label_rows_fit_iff_one_code_per_character_witness:
  "fst (get_batch demo_ext ''train'' demo_generator) = Inr (demo_inputs, demo_outputs)
   \<and> label_length demo_inputs ! 0 = [real (length ''hi'')]
   \<and> label_length demo_inputs ! 1 = [real (length ''hello there'')]
   \<and> label_length demo_inputs ! 2 = [real (length ''ok'')]
   \<and> length (demo_label 0) = length ''hi''
   \<and> length (demo_label 1) = length ''hello there''
   \<and> length (demo_label 2) = length ''ok''"
proof -
  have lhs: "\<exists>inp out. fst (get_batch demo_ext ''train'' demo_generator) = Inr (inp, out) \<and>
              (\<forall>i<minimum_batch_size demo_generator.
                 length (demo_label i) \<le> length (the_labels inp ! i) \<and>
                 label_length inp ! i = [real (length ([''hi'', ''hello there'', ''ok''] ! (0 + i)))])"
  proof (intro exI conjI allI impI)
    show "fst (get_batch demo_ext ''train'' demo_generator) = Inr (demo_inputs, demo_outputs)"
      by (rule demo_batch)
  next
    fix i assume "i < minimum_batch_size demo_generator"
    then have i: "i = 0 \<or> i = 1 \<or> i = 2" by auto
    then show "length (demo_label i) \<le> length (the_labels demo_inputs ! i)"
      by (auto simp: demo_label_def demo_inputs_def)
    from i show "label_length demo_inputs ! i = [real (length ([''hi'', ''hello there'', ''ok''] ! (0 + i)))]"
      by (auto simp: demo_inputs_def)
  qed
  have "\<forall>i<minimum_batch_size demo_generator.
          length (demo_label i) = length ([''hi'', ''hello there'', ''ok''] ! (0 + i))"
    using label_rows_fit_iff_one_code_per_character[OF demo_select _ _ _ demo_features _
        demo_label_encoded] lhs
    by simp
  note one = this[rule_format]
  from one[of 0] one[of 1] one[of 2]
  have "length (demo_label 0) = length ''hi''" "length (demo_label 1) = length ''hello there''"
    "length (demo_label 2) = length ''ok''"
    by simp_all
  then show ?thesis using demo_batch by (simp add: demo_inputs_def)
qed

text \<open>
  With two codes per character the 22 codes of \<open>hello there\<close> do not fit the 11 columns
  of the label tensor, and the row assignment of line 92 raises.
\<close>

lemma doubling_encoded:
  "text_to_int_sequence doubling_ext ''hi'' = Inr [2, 3, 2, 3]"
  "text_to_int_sequence doubling_ext ''hello there'' =
     Inr [2, 3, 2, 3, 2, 3, 2, 3, 2, 3, 2, 3, 2, 3, 2, 3, 2, 3, 2, 3, 2, 3]"
  by (simp_all add: doubling_ext_def)

lemma doubling_features:
  "fst (window_features doubling_ext audio_paths c g) = fst (window_features demo_ext audio_paths c g)"
proof -
  have "fst (featurize doubling_ext a g) = fst (featurize demo_ext a g)" for a
    by (cases "spectrogram g") (simp_all add: featurize_def doubling_ext_def)
  then show ?thesis by (simp add: window_features_eq)
qed

lemma get_batch_two_codes_per_character:
  "fst (get_batch doubling_ext ''train'' demo_generator) = Inl ValueError"
proof -
  have "batch_arrays doubling_ext demo_generator
     [Array2 2 [[1 / (1 + eps), 2 / (1 + eps)]],
      Array2 2 [[3 / (1 + eps), 4 / (1 + eps)], [5 / (1 + eps), 6 / (1 + eps)],
                [7 / (1 + eps), 8 / (1 + eps)]],
      Array2 2 [[9 / (1 + eps), 10 / (1 + eps)], [11 / (1 + eps), 12 / (1 + eps)]]]
     [''hi'', ''hello there'', ''ok''] 0 = Inl ValueError"
    unfolding batch_arrays_def demo_fields upt_3
    by (simp add: py_index_def nrows_def allocate_def fill_example_def update_at_def
        assign_rows_def broadcast_to2_def assign_prefix_def broadcast_to_def stretch_def
        doubling_encoded numeral_3_eq_3 numeral_2_eq_2)
  then show ?thesis
    by (simp add: get_batch_eq demo_select doubling_features demo_features)
qed

end
